theory Spec2Isabelle
  imports Main "HOL-Library.Word"
begin

unbundle bit_operations_syntax

section \<open>Data model of VncConnection\<close>

text \<open>
  The development follows \<^verbatim>\<open>VncConnection.cpp\<close>. C++ \<^verbatim>\<open>int\<close> values are HOL integers
  (the arithmetic that can leave the 32-bit range is written out where it occurs),
  a \<^verbatim>\<open>QString\<close> is a \<^typ>\<open>string\<close> with one character per code unit, pointers are
  optional addresses (\<^term>\<open>None\<close> is the null pointer).
\<close>

datatype State = Disconnected | Connecting | Connected | HostOffline | ServerNotRunning
  | AuthenticationFailed | ConnectionFailed

datatype FramebufferState = Invalid | Initialized | Valid

datatype Quality = Highest | High | Medium | Low | Lowest

datatype ControlFlag = ScaledFramebufferNeedsUpdate | ServerReachable | TerminateThread
  | RestartConnection | DeleteAfterFinished | SkipHostPing | RequiresManualUpdateRateControl
  | TriggerFramebufferUpdate

type_synonym RfbPixel = "32 word"

record QSize =
  wd :: int
  ht :: int

definition mkSize :: "int \<Rightarrow> int \<Rightarrow> QSize" where
  "mkSize w h = \<lparr>wd = w, ht = h\<rparr>"

text \<open>The three size predicates of Qt: null is 0 x 0, empty has a side below 1, valid has
  no negative side.\<close>

definition isNull :: "QSize \<Rightarrow> bool" where
  "isNull s = (wd s = 0 \<and> ht s = 0)"

definition isEmpty :: "QSize \<Rightarrow> bool" where
  "isEmpty s = (wd s < 1 \<or> ht s < 1)"

definition isValid :: "QSize \<Rightarrow> bool" where
  "isValid s = (0 \<le> wd s \<and> 0 \<le> ht s)"

record QImage =
  imgSize :: QSize
  imgBits :: "RfbPixel list"

text \<open>The default-constructed image \<^verbatim>\<open>QImage()\<close> (written \<^verbatim>\<open>{}\<close> in the source).\<close>

definition nullImage :: QImage where
  "nullImage = \<lparr>imgSize = mkSize 0 0, imgBits = []\<rparr>"

text \<open>\<^verbatim>\<open>QImage(data, width, height, format)\<close>: an image over existing pixel memory; Qt gives
  the null image when a side is not positive. The image holds the pixel values of the
  wrapped array; later writes through the array are outside this development.\<close>

definition wrapImage :: "RfbPixel list \<Rightarrow> int \<Rightarrow> int \<Rightarrow> QImage" where
  "wrapImage bits w h = (if w \<le> 0 \<or> h \<le> 0 then nullImage else \<lparr>imgSize = mkSize w h, imgBits = bits\<rparr>)"

datatype AspectRatioMode = IgnoreAspectRatio | KeepAspectRatio | KeepAspectRatioByExpanding

datatype TransformationMode = FastTransformation | SmoothTransformation

text \<open>\<^verbatim>\<open>QImage::scaled\<close> belongs to Qt; the functions that call it take it as a parameter.\<close>

type_synonym scaler = "QImage \<Rightarrow> QSize \<Rightarrow> AspectRatioMode \<Rightarrow> TransformationMode \<Rightarrow> QImage"

datatype VncEvent = VncPointerEvent int int int | VncKeyEvent nat bool
  | VncClientCutEvent string | VncUpdateFormatAndEncodingsEvent

record QPixmap =
  pixSource :: "8 word list"
  pixMask :: "8 word list"
  pixWidth :: int
  pixHeight :: int

datatype signal = connectionPrepared | stateChanged | framebufferSizeChanged int int
  | imageUpdated int int int int | framebufferUpdateComplete | cursorPosChanged int int
  | cursorShapeUpdated QPixmap int int | gotCut string

text \<open>Calls into the RFB codec that put a message on the wire.\<close>

datatype codec_call = SendFramebufferUpdateRequest int int int int bool
  | SendIncrementalFramebufferUpdateRequest | FireEvent VncEvent

text \<open>What a method does besides changing fields is appended to a log kept with the
  object: signals emitted, codec calls, wake-ups of \<^verbatim>\<open>m_updateIntervalSleeper\<close>, timed waits
  on it, and the two calls into the platform's network functions.\<close>

datatype effect = Emit signal | Codec codec_call | WakeAll | TimedWait int
  | ConfigureSocketKeepalive int int int int | Ping string

record VncConnection =
  m_state :: State
  m_framebufferState :: FramebufferState
  m_controlFlags :: "32 word"
  m_client :: "nat option"
  m_quality :: Quality
  m_host :: string
  m_port :: int
  m_defaultPort :: int
  m_useRemoteCursor :: bool
  m_image :: QImage
  m_scaledFramebuffer :: QImage
  m_scaledSize :: QSize
  m_framebufferUpdateInterval :: int
  m_framebufferUpdateWatchdog :: int
  m_eventQueue :: "VncEvent list"
  m_connectTimeout :: int
  m_readTimeout :: int
  m_connectionRetryInterval :: int
  m_messageWaitTimeout :: int
  m_framebufferUpdateWatchdogTimeout :: int
  m_socketKeepaliveIdleTime :: int
  m_socketKeepaliveInterval :: int
  m_socketKeepaliveCount :: int
  effects :: "effect list"

definition perform :: "effect \<Rightarrow> VncConnection \<Rightarrow> VncConnection" where
  "perform e s = s\<lparr>effects := effects s @ [e]\<rparr>"

section \<open>Host string patterns (setHost)\<close>

text \<open>
  The six \<^verbatim>\<open>QRegularExpression\<close> patterns of \<^verbatim>\<open>setHost\<close> use character classes, fixed
  repetition, \<^verbatim>\<open>+\<close>, capture groups (never nested) and the anchors \<^verbatim>\<open>^\<close> and \<^verbatim>\<open>$\<close>. A pattern
  is a list of nodes; \<^verbatim>\<open>x+\<close> is \<^verbatim>\<open>x\<close> followed by \<^verbatim>\<open>x*\<close>. Every pattern starts with \<^verbatim>\<open>^\<close>,
  so a match can only begin at the first character, which is where \<open>rmatch\<close> starts.
\<close>

datatype cclass = Lit char | Digit | AnyChar | OneOf string | NoneOf string

fun cmatch :: "cclass \<Rightarrow> char \<Rightarrow> bool" where
  "cmatch (Lit a) c = (c = a)"
| "cmatch Digit c = (c \<in> set ''0123456789'')"
| "cmatch AnyChar c = (c \<noteq> CHR 0x0A)"
| "cmatch (OneOf cs) c = (c \<in> set cs)"
| "cmatch (NoneOf cs) c = (c \<notin> set cs)"

datatype greed = Greedy | Lazy

datatype node = Single cclass | Many cclass greed | GOpen | GClose | Dollar

text \<open>The capture state: the group being filled, if any, and the groups already closed.\<close>

type_synonym capstate = "string option \<times> string list"

fun consume :: "char \<Rightarrow> capstate \<Rightarrow> capstate" where
  "consume x (None, done) = (None, done)"
| "consume x (Some acc, done) = (Some (acc @ [x]), done)"

text \<open>Backtracking matcher, alternatives tried in the order the regular expression engine
  tries them: a greedy repetition takes one more character first, a lazy one first tries
  to go on with the rest of the pattern. \<^verbatim>\<open>$\<close> holds at the end of the subject and before a
  final newline.\<close>

fun rmatch :: "node list \<Rightarrow> string \<Rightarrow> capstate \<Rightarrow> string list option" where
  "rmatch [] s cs = Some (snd cs)"
| "rmatch (Dollar # r) s cs = (if s = [] \<or> s = [CHR 0x0A] then rmatch r s cs else None)"
| "rmatch (GOpen # r) s cs = rmatch r s (Some [], snd cs)"
| "rmatch (GClose # r) s cs =
     rmatch r s (None, snd cs @ [case fst cs of None \<Rightarrow> [] | Some acc \<Rightarrow> acc])"
| "rmatch (Single c # r) [] cs = None"
| "rmatch (Single c # r) (x # s) cs = (if cmatch c x then rmatch r s (consume x cs) else None)"
| "rmatch (Many c g # r) [] cs = rmatch r [] cs"
| "rmatch (Many c Greedy # r) (x # s) cs =
     (if cmatch c x
      then (case rmatch (Many c Greedy # r) s (consume x cs) of
              Some res \<Rightarrow> Some res
            | None \<Rightarrow> rmatch r (x # s) cs)
      else rmatch r (x # s) cs)"
| "rmatch (Many c Lazy # r) (x # s) cs =
     (case rmatch r (x # s) cs of
        Some res \<Rightarrow> Some res
      | None \<Rightarrow> (if cmatch c x then rmatch (Many c Lazy # r) s (consume x cs) else None))"

definition lits :: "string \<Rightarrow> node list" where
  "lits s = map (\<lambda>c. Single (Lit c)) s"

definition oneOrMore :: "cclass \<Rightarrow> greed \<Rightarrow> node list" where
  "oneOrMore c g = [Single c, Many c g]"

definition exactly :: "nat \<Rightarrow> cclass \<Rightarrow> node list" where
  "exactly n c = replicate n (Single c)"

text \<open>\<^verbatim>\<open>\d+.\d+.\d+.\d+\<close>: the dots are not escaped in the source, so each stands for any
  character but a newline.\<close>

definition dotted :: "node list" where
  "dotted = oneOrMore Digit Greedy @ [Single AnyChar] @ oneOrMore Digit Greedy @ [Single AnyChar]
     @ oneOrMore Digit Greedy @ [Single AnyChar] @ oneOrMore Digit Greedy"

definition hexColon :: cclass where
  "hexColon = OneOf ''0123456789abcdefABCDEF:''"

text \<open>The patterns, in the order of the \<^verbatim>\<open>||\<close> chain. The fifth is compiled with
  \<^verbatim>\<open>InvertedGreedinessOption\<close>, which makes its \<^verbatim>\<open>+\<close> lazy.\<close>

definition hostPatterns :: "node list list" where
  "hostPatterns =
    [ lits ''::'' @ exactly 4 (OneOf ''fF'') @ lits '':'' @ [GOpen] @ dotted @ [GClose, Dollar],
      lits ''::'' @ exactly 4 (OneOf ''fF'') @ lits '':'' @ [GOpen] @ dotted @ [GClose]
        @ lits '':'' @ [GOpen] @ oneOrMore Digit Greedy @ [GClose, Dollar],
      lits ''[::'' @ exactly 4 (OneOf ''fF'') @ lits '':'' @ [GOpen] @ dotted @ [GClose]
        @ lits '']:'' @ [GOpen] @ oneOrMore Digit Greedy @ [GClose, Dollar],
      lits ''['' @ [GOpen] @ oneOrMore hexColon Greedy @ [GClose] @ lits '']:''
        @ [GOpen] @ oneOrMore Digit Greedy @ [GClose, Dollar],
      [GOpen] @ oneOrMore hexColon Lazy @ [GClose] @ lits '':''
        @ [GOpen] @ exactly 5 Digit @ [GClose, Dollar],
      [GOpen] @ oneOrMore (NoneOf '':'') Greedy @ [GClose] @ lits '':''
        @ [GOpen] @ oneOrMore Digit Greedy @ [GClose, Dollar] ]"

text \<open>The first pattern of the chain that matches supplies the captures.\<close>

fun firstMatch :: "node list list \<Rightarrow> string \<Rightarrow> string list option" where
  "firstMatch [] s = None"
| "firstMatch (p # ps) s =
     (case rmatch p s (None, []) of Some caps \<Rightarrow> Some caps | None \<Rightarrow> firstMatch ps s)"

text \<open>\<^verbatim>\<open>match.captured(n)\<close>: the text of group \<open>n\<close>, the null string when the pattern has
  no such group.\<close>

definition captured :: "string list \<Rightarrow> nat \<Rightarrow> string" where
  "captured caps n = (if 1 \<le> n \<and> n \<le> length caps then caps ! (n - 1) else [])"

definition digitValue :: "char \<Rightarrow> int" where
  "digitValue c = int (of_char c) - 48"

text \<open>\<^verbatim>\<open>QString::toInt\<close> on the strings \<^verbatim>\<open>setHost\<close> passes to it (the null string or decimal
  digits): the value when it fits a 32-bit \<^verbatim>\<open>int\<close>, and 0 when the conversion fails.\<close>

definition toInt :: "string \<Rightarrow> int" where
  "toInt s =
     (if s \<noteq> [] \<and> list_all (cmatch Digit) s
      then (let v = foldl (\<lambda>acc c. acc * 10 + digitValue c) 0 s
            in if v \<le> 2147483647 then v else 0)
      else 0)"

definition setHost :: "string \<Rightarrow> VncConnection \<Rightarrow> VncConnection" where
  "setHost host s =
     (let s1 = s\<lparr>m_host := host\<rparr> in
      case firstMatch hostPatterns (m_host s1) of
        None \<Rightarrow> s1
      | Some caps \<Rightarrow>
          (let matchedHost = captured caps 1;
               s2 = (if matchedHost \<noteq> [] then s1\<lparr>m_host := matchedHost\<rparr> else s1);
               port = toInt (captured caps 2)
           in if port > 0 then s2\<lparr>m_port := port\<rparr> else s2))"

section \<open>Control flags, connection state, event queue\<close>

text \<open>Modelled from the spec: the numeric values of the \<^verbatim>\<open>ControlFlag\<close> enumerators are
  declared in \<^verbatim>\<open>VncConnection.h\<close>, which is not among the sources. The spec describes the
  flags as a bitset with one named signal per flag; each flag is given a bit of its own.\<close>

fun flagBit :: "ControlFlag \<Rightarrow> nat" where
  "flagBit ScaledFramebufferNeedsUpdate = 0"
| "flagBit ServerReachable = 1"
| "flagBit TerminateThread = 2"
| "flagBit RestartConnection = 3"
| "flagBit DeleteAfterFinished = 4"
| "flagBit SkipHostPing = 5"
| "flagBit RequiresManualUpdateRateControl = 6"
| "flagBit TriggerFramebufferUpdate = 7"

definition flagMask :: "ControlFlag \<Rightarrow> 32 word" where
  "flagMask f = push_bit (flagBit f) 1"

definition setControlFlag :: "ControlFlag \<Rightarrow> bool \<Rightarrow> VncConnection \<Rightarrow> VncConnection" where
  "setControlFlag flag on s =
     (if on then s\<lparr>m_controlFlags := m_controlFlags s OR flagMask flag\<rparr>
      else s\<lparr>m_controlFlags := m_controlFlags s AND NOT (flagMask flag)\<rparr>)"

definition isControlFlagSet :: "ControlFlag \<Rightarrow> VncConnection \<Rightarrow> bool" where
  "isControlFlagSet flag s = (m_controlFlags s AND flagMask flag \<noteq> 0)"

text \<open>\<^verbatim>\<open>m_state.exchange(state) != state\<close>: the signal is emitted only on a change.\<close>

definition setState :: "State \<Rightarrow> VncConnection \<Rightarrow> VncConnection" where
  "setState st s =
     (let old = m_state s; s1 = s\<lparr>m_state := st\<rparr>
      in if old \<noteq> st then perform (Emit stateChanged) s1 else s1)"

text \<open>Modelled from the spec: \<^verbatim>\<open>hasValidFramebuffer()\<close> is defined in the absent header. The
  spec's framebuffer state is Valid after the first complete update, and that is what a
  valid framebuffer means here.\<close>

definition hasValidFramebuffer :: "VncConnection \<Rightarrow> bool" where
  "hasValidFramebuffer s = (m_framebufferState s = Valid)"

definition setServerReachable :: "VncConnection \<Rightarrow> VncConnection" where
  "setServerReachable s = setControlFlag ServerReachable True s"

definition restart :: "VncConnection \<Rightarrow> VncConnection" where
  "restart s = setControlFlag RestartConnection True s"

definition setPort :: "int \<Rightarrow> VncConnection \<Rightarrow> VncConnection" where
  "setPort port s = (if port \<ge> 0 then s\<lparr>m_port := port\<rparr> else s)"

definition enqueueEvent :: "VncEvent \<Rightarrow> VncConnection \<Rightarrow> VncConnection" where
  "enqueueEvent event s =
     (if m_state s \<noteq> Connected then s
      else perform WakeAll (s\<lparr>m_eventQueue := m_eventQueue s @ [event]\<rparr>))"

definition isEventQueueEmpty :: "VncConnection \<Rightarrow> bool" where
  "isEventQueueEmpty s = (m_eventQueue s = [])"

definition mouseEvent :: "int \<Rightarrow> int \<Rightarrow> int \<Rightarrow> VncConnection \<Rightarrow> VncConnection" where
  "mouseEvent x y buttonMask s = enqueueEvent (VncPointerEvent x y buttonMask) s"

definition keyEvent :: "nat \<Rightarrow> bool \<Rightarrow> VncConnection \<Rightarrow> VncConnection" where
  "keyEvent key pressed s = enqueueEvent (VncKeyEvent key pressed) s"

definition clientCut :: "string \<Rightarrow> VncConnection \<Rightarrow> VncConnection" where
  "clientCut txt s = enqueueEvent (VncClientCutEvent txt) s"

section \<open>Scaled framebuffer\<close>

definition setScaledSize :: "QSize \<Rightarrow> VncConnection \<Rightarrow> VncConnection" where
  "setScaledSize sz s =
     (if m_scaledSize s \<noteq> sz
      then setControlFlag ScaledFramebufferNeedsUpdate True (s\<lparr>m_scaledSize := sz\<rparr>)
      else s)"

definition rescaleFramebuffer :: "scaler \<Rightarrow> VncConnection \<Rightarrow> VncConnection" where
  "rescaleFramebuffer scaled s =
     (if hasValidFramebuffer s = False \<or> isNull (m_scaledSize s)
      then s\<lparr>m_scaledFramebuffer := nullImage\<rparr>
      else if isControlFlagSet ScaledFramebufferNeedsUpdate s = False then s
      else if isValid (imgSize (m_image s)) = False then s
      else setControlFlag ScaledFramebufferNeedsUpdate False
             (s\<lparr>m_scaledFramebuffer :=
                  scaled (m_image s) (m_scaledSize s) IgnoreAspectRatio SmoothTransformation\<rparr>))"

definition scaledFramebuffer :: "scaler \<Rightarrow> VncConnection \<Rightarrow> QImage \<times> VncConnection" where
  "scaledFramebuffer scaled s =
     (let s1 = rescaleFramebuffer scaled s in (m_scaledFramebuffer s1, s1))"

definition setFramebufferUpdateInterval :: "int \<Rightarrow> VncConnection \<Rightarrow> VncConnection" where
  "setFramebufferUpdateInterval interval s =
     (let s1 = s\<lparr>m_framebufferUpdateInterval := interval\<rparr>;
          s2 = (if m_framebufferUpdateInterval s1 \<le> 0
                then setControlFlag TriggerFramebufferUpdate True s1 else s1)
      in perform WakeAll s2)"

definition finishFrameBufferUpdate :: "int \<Rightarrow> VncConnection \<Rightarrow> VncConnection" where
  \<comment> \<open>the first argument is the clock reading at which the watchdog is restarted\<close>
  "finishFrameBufferUpdate now s =
     perform (Emit framebufferUpdateComplete)
       (setControlFlag ScaledFramebufferNeedsUpdate True
          (s\<lparr>m_framebufferUpdateWatchdog := now, m_framebufferState := Valid\<rparr>))"

text \<open>What the contract of \<^verbatim>\<open>QImage::scaled\<close> says about sizes when the aspect ratio is
  ignored: the null image for a null source or an empty target size, the target size
  otherwise.\<close>

definition scaledContract :: "scaler \<Rightarrow> bool" where
  "scaledContract scaled =
     (\<forall>img sz tm.
        (if img = nullImage \<or> isEmpty sz then scaled img sz IgnoreAspectRatio tm = nullImage
         else imgSize (scaled img sz IgnoreAspectRatio tm) = sz))"

text \<open>The stored scaled image is current: the pixel buffer's image has a valid size, as
  every \<^verbatim>\<open>QImage\<close> has, and whenever \<^verbatim>\<open>rescaleFramebuffer\<close> would hand out the stored image
  without rescaling (valid framebuffer, scaled size not null, scaled-dirty clear), that
  image is what a rescaling would give in size: empty for a null pixel buffer or an empty
  scaled size, of the scaled size otherwise.\<close>

definition scaledImageCurrent :: "VncConnection \<Rightarrow> bool" where
  "scaledImageCurrent s =
     (isValid (imgSize (m_image s)) \<and>
      (if hasValidFramebuffer s \<and> \<not> isNull (m_scaledSize s)
          \<and> \<not> isControlFlagSet ScaledFramebufferNeedsUpdate s
       then (if m_image s = nullImage \<or> isEmpty (m_scaledSize s)
             then m_scaledFramebuffer s = nullImage
             else imgSize (m_scaledFramebuffer s) = m_scaledSize s)
       else True))"

text \<open>A scaler meeting the contract, sampling the nearest source pixel; it stands for
  Qt's routine where a concrete one is needed.\<close>

definition nearestPixel :: "QImage \<Rightarrow> QSize \<Rightarrow> nat \<Rightarrow> RfbPixel" where
  "nearestPixel img sz k =
     (let x = int k mod wd sz; y = int k div wd sz;
          sx = x * wd (imgSize img) div wd sz; sy = y * ht (imgSize img) div ht sz;
          i = nat (sy * wd (imgSize img) + sx)
      in if i < length (imgBits img) then imgBits img ! i else 0)"

definition nearestScaled :: scaler where
  "nearestScaled img sz am tm =
     (if img = nullImage \<or> isEmpty sz then nullImage
      else \<lparr>imgSize = sz, imgBits = map (nearestPixel img sz) [0 ..< nat (wd sz * ht sz)]\<rparr>)"

section \<open>The codec client and the methods that reach it through m_client\<close>

record rfbPixelFormat =
  bitsPerPixel :: nat
  redShift :: nat
  greenShift :: nat
  blueShift :: nat
  redMax :: nat
  greenMax :: nat
  blueMax :: nat

record AppData =
  encodingsString :: string
  compressLevel :: int
  qualityLevel :: int
  enableJPEG :: bool
  useRemoteCursor :: bool
  useBGR233 :: bool

text \<open>The fields of libvncclient's \<^verbatim>\<open>rfbClient\<close> that the source reads or writes.
  \<open>clientDataSlots\<close> is the per-client list of tagged data of
  \<^verbatim>\<open>rfbClientSetClientData\<close> / \<^verbatim>\<open>rfbClientGetClientData\<close>. The six callback fields always
  receive the same six hook functions and are not stored.\<close>

record rfbClient =
  width :: int
  height :: int
  format :: rfbPixelFormat
  appData :: AppData
  frameBuffer :: "RfbPixel list option"
  serverPort :: int
  serverHost :: string
  connectTimeout :: int
  readTimeout :: int
  canHandleNewFBSize :: bool
  sock :: int
  rcSource :: "8 word list"
  rcMask :: "8 word list"
  clientDataSlots :: "int \<Rightarrow> nat option"

text \<open>Modelled from the spec: the constants below are declared in the absent header
  \<^verbatim>\<open>VncConnection.h\<close>. The spec fixes a 32-bit pixel with three 8-bit channels; the tag of
  the registration slot is opaque, and only its being the same in every call matters.\<close>

definition RfbBitsPerSample :: nat where
  "RfbBitsPerSample = 8"

definition RfbSamplesPerPixel :: nat where
  "RfbSamplesPerPixel = 3"

definition RfbBytesPerPixel :: nat where
  "RfbBytesPerPixel = 4"

definition VncConnectionTag :: int where
  "VncConnectionTag = 0x590123"

text \<open>A driver is the connection object together with the store of codec clients, indexed
  by address. A method that dereferences a null \<^verbatim>\<open>m_client\<close> has no defined result.\<close>

type_synonym driver = "VncConnection \<times> (nat \<Rightarrow> rfbClient)"

definition updateEncodingSettingsFromQuality :: "driver \<Rightarrow> driver option" where
  "updateEncodingSettingsFromQuality d =
     (case d of (s, cl) \<Rightarrow>
      (case m_client s of
         None \<Rightarrow> None
       | Some c \<Rightarrow>
           Some (s, cl(c := (cl c)\<lparr>appData := (appData (cl c))
             \<lparr>encodingsString :=
                (if m_quality s = Highest then ''zrle ultra copyrect hextile zlib corre rre raw''
                 else ''tight zywrle zrle ultra''),
              compressLevel := 9,
              qualityLevel :=
                (case m_quality s of
                   Highest \<Rightarrow> 9 | High \<Rightarrow> 7 | Medium \<Rightarrow> 5 | Low \<Rightarrow> 3 | Lowest \<Rightarrow> 0),
              enableJPEG := (m_quality s \<noteq> Highest)\<rparr>\<rparr>))))"

text \<open>The pixel array of \<^verbatim>\<open>initFrameBuffer\<close>: \<^verbatim>\<open>pixelCount\<close>, the allocation and the
  \<^verbatim>\<open>memset\<close>. \<^verbatim>\<open>static_cast<uint32_t>(width) * height\<close> is a product of unsigned 32-bit
  values, and so is the byte count handed to \<^verbatim>\<open>memset\<close>. \<^verbatim>\<open>new RfbPixel[n]\<close> does not
  initialise the array: \<open>uninit\<close> gives the content each cell has before \<^verbatim>\<open>memset\<close>.\<close>

definition pixelBuffer :: "(nat \<Rightarrow> RfbPixel) \<Rightarrow> int \<Rightarrow> int \<Rightarrow> RfbPixel list" where
  "pixelBuffer uninit w h =
     (let pixelCount = nat ((w * h) mod 2 ^ 32);
          zeroed = ((pixelCount * RfbBytesPerPixel) mod 2 ^ 32) div RfbBytesPerPixel
      in replicate zeroed 0 @ map uninit [zeroed ..< pixelCount])"

definition initFrameBuffer :: "(nat \<Rightarrow> RfbPixel) \<Rightarrow> driver \<Rightarrow> (bool \<times> driver) option" where
  "initFrameBuffer uninit d =
     (case d of (s, cl) \<Rightarrow>
      (case m_client s of
         None \<Rightarrow> None
       | Some c \<Rightarrow>
           if bitsPerPixel (format (cl c)) \<noteq> RfbBitsPerSample * RfbBytesPerPixel
           then Some (False, (s, cl))
           else
             (let buf = pixelBuffer uninit (width (cl c)) (height (cl c));
                  rc1 = (cl c)\<lparr>frameBuffer := Some buf\<rparr>;
                  s1 = s\<lparr>m_image := wrapImage buf (width rc1) (height rc1)\<rparr>;
                  rc2 = rc1\<lparr>format := (format rc1)
                          \<lparr>redShift := 16, greenShift := 8, blueShift := 0,
                           redMax := 0xff, greenMax := 0xff, blueMax := 0xff\<rparr>\<rparr>;
                  rc3 = rc2\<lparr>appData := (appData rc2)
                          \<lparr>useRemoteCursor := m_useRemoteCursor s1, useBGR233 := False\<rparr>\<rparr>
              in case updateEncodingSettingsFromQuality (s1, cl(c := rc3)) of
                   None \<Rightarrow> None
                 | Some (s2, cl2) \<Rightarrow>
                     Some (True,
                       (perform (Emit (framebufferSizeChanged (width (cl2 c)) (height (cl2 c))))
                          (s2\<lparr>m_framebufferState := Initialized\<rparr>), cl2)))))"

definition setQuality :: "Quality \<Rightarrow> driver \<Rightarrow> driver option" where
  "setQuality quality d =
     (case d of (s, cl) \<Rightarrow>
      (let s1 = s\<lparr>m_quality := quality\<rparr> in
       if m_client s1 \<noteq> None
       then (case updateEncodingSettingsFromQuality (s1, cl) of
               None \<Rightarrow> None
             | Some (s2, cl2) \<Rightarrow> Some (enqueueEvent VncUpdateFormatAndEncodingsEvent s2, cl2))
       else Some (s1, cl)))"

definition setUseRemoteCursor :: "bool \<Rightarrow> driver \<Rightarrow> driver" where
  "setUseRemoteCursor enabled d =
     (case d of (s, cl) \<Rightarrow>
      (let s1 = s\<lparr>m_useRemoteCursor := enabled\<rparr> in
       case m_client s1 of
         None \<Rightarrow> (s1, cl)
       | Some c \<Rightarrow>
           (enqueueEvent VncUpdateFormatAndEncodingsEvent s1,
            cl(c := (cl c)\<lparr>appData := (appData (cl c))\<lparr>useRemoteCursor := enabled\<rparr>\<rparr>))))"

definition setClientData :: "int \<Rightarrow> nat option \<Rightarrow> driver \<Rightarrow> driver" where
  "setClientData tag data d =
     (case d of (s, cl) \<Rightarrow>
      (case m_client s of
         None \<Rightarrow> (s, cl)
       | Some c \<Rightarrow> (s, cl(c := (cl c)\<lparr>clientDataSlots := (clientDataSlots (cl c))(tag := data)\<rparr>))))"

definition stop :: "driver \<Rightarrow> driver" where
  "stop d =
     (case setClientData VncConnectionTag None d of (s, cl) \<Rightarrow>
        (perform WakeAll (setControlFlag TerminateThread True (s\<lparr>m_scaledFramebuffer := nullImage\<rparr>)),
         cl))"

definition closeConnection :: "driver \<Rightarrow> driver" where
  "closeConnection d = (case d of (s, cl) \<Rightarrow> (setState Disconnected (s\<lparr>m_client := None\<rparr>), cl))"

section \<open>Callbacks registered with the codec\<close>

text \<open>A callback receives only the codec's client pointer and finds the connection through
  the client's registration slot, so the callbacks act on a store of connection objects
  and a store of clients.\<close>

record world =
  connections :: "nat \<Rightarrow> VncConnection"
  rfbClients :: "nat \<Rightarrow> rfbClient"

definition clientData :: "nat option \<Rightarrow> int \<Rightarrow> world \<Rightarrow> nat option" where
  "clientData client tag w =
     (case client of None \<Rightarrow> None | Some c \<Rightarrow> clientDataSlots (rfbClients w c) tag)"

definition onConnection :: "nat \<Rightarrow> (VncConnection \<Rightarrow> VncConnection) \<Rightarrow> world \<Rightarrow> world" where
  "onConnection p f w = w\<lparr>connections := (connections w)(p := f (connections w p))\<rparr>"

definition hookInitFrameBuffer :: "(nat \<Rightarrow> RfbPixel) \<Rightarrow> nat option \<Rightarrow> world \<Rightarrow> (bool \<times> world) option" where
  "hookInitFrameBuffer uninit client w =
     (case clientData client VncConnectionTag w of
        None \<Rightarrow> Some (False, w)
      | Some p \<Rightarrow>
          if m_client (connections w p) = client
          then (case initFrameBuffer uninit (connections w p, rfbClients w) of
                  None \<Rightarrow> None
                | Some (r, (s', cl')) \<Rightarrow>
                    Some (r, w\<lparr>connections := (connections w)(p := s'), rfbClients := cl'\<rparr>))
          else Some (False, w))"

definition hookUpdateFB :: "nat option \<Rightarrow> int \<Rightarrow> int \<Rightarrow> int \<Rightarrow> int \<Rightarrow> world \<Rightarrow> world" where
  "hookUpdateFB client x y w h wld =
     (case clientData client VncConnectionTag wld of
        None \<Rightarrow> wld
      | Some p \<Rightarrow> onConnection p (perform (Emit (imageUpdated x y w h))) wld)"

definition hookFinishFrameBufferUpdate :: "int \<Rightarrow> nat option \<Rightarrow> world \<Rightarrow> world" where
  "hookFinishFrameBufferUpdate now client wld =
     (case clientData client VncConnectionTag wld of
        None \<Rightarrow> wld
      | Some p \<Rightarrow> onConnection p (finishFrameBufferUpdate now) wld)"

definition hookHandleCursorPos :: "nat option \<Rightarrow> int \<Rightarrow> int \<Rightarrow> world \<Rightarrow> bool \<times> world" where
  "hookHandleCursorPos client x y wld =
     (case clientData client VncConnectionTag wld of
        None \<Rightarrow> (True, wld)
      | Some p \<Rightarrow> (True, onConnection p (perform (Emit (cursorPosChanged x y))) wld))"

text \<open>The cursor images are read from the client before the owner is looked up, so a null
  client pointer has no defined result here.\<close>

definition hookCursorShape :: "nat option \<Rightarrow> int \<Rightarrow> int \<Rightarrow> int \<Rightarrow> int \<Rightarrow> int \<Rightarrow> world \<Rightarrow> world option" where
  "hookCursorShape client xh yh w h bpp wld =
     (if bpp \<noteq> 4 then Some wld
      else (case client of
              None \<Rightarrow> None
            | Some c \<Rightarrow>
                (let cursorShape = \<lparr>pixSource = rcSource (rfbClients wld c),
                                    pixMask = rcMask (rfbClients wld c),
                                    pixWidth = w, pixHeight = h\<rparr>
                 in case clientData client VncConnectionTag wld of
                      None \<Rightarrow> Some wld
                    | Some p \<Rightarrow>
                        Some (onConnection p (perform (Emit (cursorShapeUpdated cursorShape xh yh))) wld))))"

text \<open>\<^verbatim>\<open>QString::fromUtf8(text, textlen)\<close>: the first \<open>textlen\<close> bytes, or the bytes before the
  terminating zero when \<open>textlen\<close> is negative. Strings stay byte strings here.\<close>

definition fromUtf8 :: "string \<Rightarrow> int \<Rightarrow> string" where
  "fromUtf8 txt len = (if len < 0 then takeWhile (\<lambda>c. c \<noteq> CHR 0x00) txt else take (nat len) txt)"

definition hookCutText :: "nat option \<Rightarrow> string \<Rightarrow> int \<Rightarrow> world \<Rightarrow> world" where
  "hookCutText client txt textlen wld =
     (let cutText = fromUtf8 txt textlen in
      case clientData client VncConnectionTag wld of
        None \<Rightarrow> wld
      | Some p \<Rightarrow> if cutText \<noteq> [] then onConnection p (perform (Emit (gotCut cutText))) wld else wld)"

section \<open>The connection thread\<close>

datatype fault = NullClient | IntOverflow | OutOfInput

definition fits32 :: "int \<Rightarrow> bool" where
  "fits32 x = (- 2147483648 \<le> x \<and> x \<le> 2147483647)"

text \<open>C++ integer division truncates towards zero.\<close>

definition cdiv :: "int \<Rightarrow> int \<Rightarrow> int" where
  "cdiv a b = sgn a * sgn b * (\<bar>a\<bar> div \<bar>b\<bar>)"

text \<open>Modelled from the spec: \<^verbatim>\<open>VncEvent::fire\<close> is implemented in \<^verbatim>\<open>VncEvents.cpp\<close>, which is
  not among the sources. Per the spec each event has its own send call that puts it on the
  wire; the call is recorded as a codec call carrying the event.\<close>

definition fire :: "VncEvent \<Rightarrow> VncConnection \<Rightarrow> VncConnection" where
  "fire event s = perform (Codec (FireEvent event)) s"

function sendEvents :: "VncConnection \<Rightarrow> VncConnection" where
  "sendEvents s =
     (case m_eventQueue s of
        [] \<Rightarrow> s
      | event # rest \<Rightarrow>
          (let s1 = s\<lparr>m_eventQueue := rest\<rparr>
           in sendEvents (if isControlFlagSet TerminateThread s1 = False then fire event s1 else s1)))"
  by pat_completeness auto
termination
  by (relation "measure (\<lambda>s. length (m_eventQueue s))") (auto simp: fire_def perform_def)

text \<open>What one turn of the message pump takes from outside: the result of the first
  \<^verbatim>\<open>WaitForMessage\<close>, the effect of each \<^verbatim>\<open>HandleRFBServerMessage\<close> call on the messages that
  are ready (the first, and those for which \<^verbatim>\<open>WaitForMessage(m_client, 0)\<close> reports more), and
  the clock: its reading at the two \<^verbatim>\<open>elapsed()\<close> calls on the watchdog and at the
  watchdog's restart, and the reading of the loop timer. The timeout handed to
  \<^verbatim>\<open>WaitForMessage\<close> only bounds how long the call blocks.\<close>

record pump_input =
  waitResult :: int
  firstMessage :: "driver \<Rightarrow> bool \<times> driver"
  furtherMessages :: "(driver \<Rightarrow> bool \<times> driver) list"
  watchdogNow :: int
  watchdogNow2 :: int
  restartNow :: int
  loopElapsed :: int

text \<open>The \<^verbatim>\<open>do ... while\<close> loop that handles all available messages; the result is
  \<^verbatim>\<open>handledOkay\<close>.\<close>

fun handleMessages :: "(driver \<Rightarrow> bool \<times> driver) \<Rightarrow> (driver \<Rightarrow> bool \<times> driver) list \<Rightarrow> driver \<Rightarrow> bool \<times> driver" where
  "handleMessages h [] d = h d"
| "handleMessages h (h' # rest) d =
     (case h d of (ok, d') \<Rightarrow> if ok then handleMessages h' rest d' else (False, d'))"

text \<open>The chain of branches on the result of \<^verbatim>\<open>WaitForMessage\<close>, for a non-null client at
  address \<open>c\<close>. The flag of the result is false where the source leaves the loop.
  \<^verbatim>\<open>2*m_framebufferUpdateInterval\<close> is a product of \<^verbatim>\<open>int\<close>.\<close>

definition pumpBranches :: "pump_input \<Rightarrow> nat \<Rightarrow> driver \<Rightarrow> fault + (bool \<times> driver)" where
  "pumpBranches inp c d =
     (case d of (s, cl) \<Rightarrow>
      if waitResult inp \<noteq> 0
      then Inr (handleMessages (firstMessage inp) (furtherMessages inp) (s, cl))
      else if \<not> fits32 (2 * m_framebufferUpdateInterval s) then Inl IntOverflow
      else if watchdogNow inp - m_framebufferUpdateWatchdog s \<ge>
                max (2 * m_framebufferUpdateInterval s) (m_framebufferUpdateWatchdogTimeout s)
      then Inr (True,
             ((perform (Codec (SendFramebufferUpdateRequest 0 0 (width (cl c)) (height (cl c)) False)) s)
                \<lparr>m_framebufferUpdateWatchdog := restartNow inp\<rparr>, cl))
      else if m_framebufferUpdateInterval s > 0 \<and>
              watchdogNow2 inp - m_framebufferUpdateWatchdog s > m_framebufferUpdateInterval s
      then Inr (True,
             ((perform (Codec SendIncrementalFramebufferUpdateRequest) s)
                \<lparr>m_framebufferUpdateWatchdog := restartNow inp\<rparr>, cl))
      else if isControlFlagSet TriggerFramebufferUpdate s
      then Inr (True,
             (perform (Codec SendIncrementalFramebufferUpdateRequest)
                (setControlFlag TriggerFramebufferUpdate False s), cl))
      else Inr (True, (s, cl)))"

text \<open>The end of a turn: the wait for the rest of the update interval, then the event
  queue.\<close>

definition pumpTail :: "pump_input \<Rightarrow> driver \<Rightarrow> driver" where
  "pumpTail inp d =
     (case d of (s, cl) \<Rightarrow>
      (let remainingUpdateInterval = m_framebufferUpdateInterval s - loopElapsed inp;
           s1 = (if remainingUpdateInterval > 0 \<and>
                    isControlFlagSet RequiresManualUpdateRateControl s \<and>
                    isControlFlagSet TerminateThread s = False
                 then perform (TimedWait remainingUpdateInterval) s else s)
       in (sendEvents s1, cl)))"

text \<open>The body of the loop of \<^verbatim>\<open>handleConnection\<close>; the flag says whether the loop goes on.\<close>

definition pumpBody :: "pump_input \<Rightarrow> driver \<Rightarrow> fault + (bool \<times> driver)" where
  "pumpBody inp d =
     (case d of (s, cl) \<Rightarrow>
      (case m_client s of
         None \<Rightarrow> Inl NullClient
       | Some c \<Rightarrow>
           if isControlFlagSet TerminateThread s \<or> waitResult inp < 0 then Inr (False, (s, cl))
           else (case pumpBranches inp c (s, cl) of
                   Inl f \<Rightarrow> Inl f
                 | Inr (ok, d') \<Rightarrow> if ok then Inr (True, pumpTail inp d') else Inr (False, d'))))"

definition pumpGuard :: "VncConnection \<Rightarrow> bool" where
  "pumpGuard s = (m_state s = Connected \<and> isControlFlagSet TerminateThread s = False \<and>
                  isControlFlagSet RestartConnection s = False)"

fun handleConnection :: "pump_input list \<Rightarrow> driver \<Rightarrow> fault + driver" where
  "handleConnection [] d = (if pumpGuard (fst d) then Inl OutOfInput else Inr d)"
| "handleConnection (inp # rest) d =
     (if pumpGuard (fst d)
      then (case pumpBody inp d of
              Inl f \<Rightarrow> Inl f
            | Inr (goOn, d') \<Rightarrow> if goOn then handleConnection rest d' else Inr d')
      else Inr d)"

text \<open>What one connection attempt takes from outside: the client \<^verbatim>\<open>rfbGetClient\<close> returns
  and its address, the effect and result of \<^verbatim>\<open>rfbInitClient\<close> (which runs the handshake and
  calls back into the hooks), the answer of the platform's ping, and the clock reading at
  the watchdog's restart.\<close>

record attempt_input =
  newClient :: nat
  newClientInit :: rfbClient
  initClient :: "driver \<Rightarrow> bool \<times> driver"
  pingResult :: bool
  connectedNow :: int

text \<open>The loop body of \<^verbatim>\<open>establishConnection\<close> up to the call of \<^verbatim>\<open>rfbInitClient\<close>; \<open>this\<close> is
  the address of the connection object.\<close>

definition prepareClient :: "nat \<Rightarrow> attempt_input \<Rightarrow> driver \<Rightarrow> driver" where
  "prepareClient this inp d =
     (case d of (s, cl) \<Rightarrow>
      (let a = newClient inp;
           rc = (newClientInit inp)\<lparr>canHandleNewFBSize := True,
                  connectTimeout := cdiv (m_connectTimeout s) 1000,
                  readTimeout := cdiv (m_readTimeout s) 1000\<rparr>
       in case setClientData VncConnectionTag (Some this) (s\<lparr>m_client := Some a\<rparr>, cl(a := rc)) of
            (s1, cl1) \<Rightarrow>
              (let s2 = perform (Emit connectionPrepared) s1;
                   cl2 = cl1(a := (cl1 a)\<lparr>serverPort := (if m_port s2 < 0 then m_defaultPort s2 else m_port s2),
                                           serverHost := m_host s2\<rparr>)
               in (setControlFlag ServerReachable False s2, cl2))))"

text \<open>The loop body from the return of \<^verbatim>\<open>rfbInitClient\<close> on; the flag of the result says
  whether the method returns at once.\<close>

definition afterInitClient :: "attempt_input \<Rightarrow> bool \<Rightarrow> driver \<Rightarrow> fault + (bool \<times> driver)" where
  "afterInitClient inp clientInitialized d =
     (case d of (s0, cl) \<Rightarrow>
      (let s = (if clientInitialized = False then s0\<lparr>m_client := None\<rparr> else s0) in
       if isControlFlagSet TerminateThread s then Inr (True, (s, cl))
       else if clientInitialized
       then (case m_client s of
               None \<Rightarrow> Inl NullClient
             | Some c \<Rightarrow>
                 Inr (False,
                   (setState Connected
                      (perform (ConfigureSocketKeepalive (sock (cl c)) (m_socketKeepaliveIdleTime s)
                                  (m_socketKeepaliveInterval s) (m_socketKeepaliveCount s))
                         (s\<lparr>m_framebufferUpdateWatchdog := connectedNow inp\<rparr>)), cl)))
       else
         (let s1 =
                (if isControlFlagSet ServerReachable s = False
                 then (if isControlFlagSet SkipHostPing s then setState HostOffline s
                       else if pingResult inp = False
                       then setState HostOffline (perform (Ping (m_host s)) s)
                       else setState ServerNotRunning (perform (Ping (m_host s)) s))
                 else if m_framebufferState s = Invalid then setState AuthenticationFailed s
                 else setState ConnectionFailed s);
              s2 = (if m_framebufferUpdateInterval s1 > 0
                    then perform (TimedWait (m_framebufferUpdateInterval s1)) s1
                    else perform (TimedWait (m_connectionRetryInterval s1)) s1)
          in Inr (False, (s2, cl)))))"

definition establishAttempt :: "nat \<Rightarrow> attempt_input \<Rightarrow> driver \<Rightarrow> fault + (bool \<times> driver)" where
  "establishAttempt this inp d =
     (case initClient inp (prepareClient this inp d) of
        (clientInitialized, d') \<Rightarrow> afterInitClient inp clientInitialized d')"

fun establishLoop :: "nat \<Rightarrow> attempt_input list \<Rightarrow> driver \<Rightarrow> fault + driver" where
  "establishLoop this [] d =
     (if isControlFlagSet TerminateThread (fst d) = False \<and> m_state (fst d) \<noteq> Connected
      then Inl OutOfInput else Inr d)"
| "establishLoop this (inp # rest) d =
     (if isControlFlagSet TerminateThread (fst d) = False \<and> m_state (fst d) \<noteq> Connected
      then (case establishAttempt this inp d of
              Inl f \<Rightarrow> Inl f
            | Inr (returned, d') \<Rightarrow> if returned then Inr d' else establishLoop this rest d')
      else Inr d)"

definition establishConnection :: "nat \<Rightarrow> attempt_input list \<Rightarrow> driver \<Rightarrow> fault + driver" where
  "establishConnection this ins d =
     (case d of (s, cl) \<Rightarrow>
        establishLoop this ins
          ((setControlFlag RestartConnection False (setState Connecting s))
             \<lparr>m_framebufferState := Invalid\<rparr>, cl))"

section \<open>Reading the log, and concrete objects\<close>

text \<open>The framebuffer update requests among the logged effects.\<close>

fun isUpdateRequest :: "effect \<Rightarrow> bool" where
  "isUpdateRequest (Codec (SendFramebufferUpdateRequest x y w h incremental)) = True"
| "isUpdateRequest (Codec SendIncrementalFramebufferUpdateRequest) = True"
| "isUpdateRequest e = False"

text \<open>A connection object with the values the constructor's initialiser list gives
  (disconnected, no framebuffer, no flag, no client, quality High, port -1, update interval
  0) and sample values for the members whose defaults are declared in the header.\<close>

definition sampleConnection :: VncConnection where
  "sampleConnection =
     \<lparr>m_state = Disconnected, m_framebufferState = Invalid, m_controlFlags = 0,
      m_client = None, m_quality = High, m_host = [], m_port = - 1, m_defaultPort = 11100,
      m_useRemoteCursor = False, m_image = nullImage, m_scaledFramebuffer = nullImage,
      m_scaledSize = mkSize (- 1) (- 1), m_framebufferUpdateInterval = 0,
      m_framebufferUpdateWatchdog = 0, m_eventQueue = [], m_connectTimeout = 10000,
      m_readTimeout = 30000, m_connectionRetryInterval = 1000, m_messageWaitTimeout = 500,
      m_framebufferUpdateWatchdogTimeout = 10000, m_socketKeepaliveIdleTime = 1000,
      m_socketKeepaliveInterval = 500, m_socketKeepaliveCount = 5, effects = []\<rparr>"

text \<open>A codec client announcing a 3 x 2 screen of 32-bit pixels, nothing registered.\<close>

definition sampleClient :: rfbClient where
  "sampleClient =
     \<lparr>width = 3, height = 2,
      format = \<lparr>bitsPerPixel = 32, redShift = 0, greenShift = 8, blueShift = 16,
                redMax = 255, greenMax = 255, blueMax = 255\<rparr>,
      appData = \<lparr>encodingsString = [], compressLevel = 3, qualityLevel = 5,
                 enableJPEG = True, useRemoteCursor = False, useBGR233 = False\<rparr>,
      frameBuffer = None, serverPort = 0, serverHost = [], connectTimeout = 0,
      readTimeout = 0, canHandleNewFBSize = False, sock = 7, rcSource = [], rcMask = [],
      clientDataSlots = (\<lambda>tag. None)\<rparr>"

definition sampleClients :: "nat \<Rightarrow> rfbClient" where
  "sampleClients = (\<lambda>a. sampleClient)"

text \<open>A 2 x 2 framebuffer image.\<close>

definition sampleImage :: QImage where
  "sampleImage = \<lparr>imgSize = mkSize 2 2, imgBits = [1, 2, 3, 4]\<rparr>"

text \<open>A store in which no client has an owner registered.\<close>

definition sampleWorld :: world where
  "sampleWorld = \<lparr>connections = (\<lambda>p. sampleConnection), rfbClients = sampleClients\<rparr>"

text \<open>A store in which the slot of the client at address 1 names the connection at address
  0, while that connection's own client is the one at address 2.\<close>

definition mismatchWorld :: world where
  "mismatchWorld =
     \<lparr>connections = (\<lambda>p. sampleConnection\<lparr>m_client := Some 2\<rparr>),
      rfbClients = (\<lambda>a. if a = 1
                         then sampleClient\<lparr>clientDataSlots := (\<lambda>tag. if tag = VncConnectionTag then Some 0 else None)\<rparr>
                         else sampleClient)\<rparr>"

text \<open>A turn of the pump with no message pending, at clock reading \<open>now\<close>.\<close>

definition samplePump :: "int \<Rightarrow> pump_input" where
  "samplePump now =
     \<lparr>waitResult = 0, firstMessage = (\<lambda>d. (True, d)), furtherMessages = [],
      watchdogNow = now, watchdogNow2 = now, restartNow = now + 1, loopElapsed = 3\<rparr>"

text \<open>A connection attempt, given what \<^verbatim>\<open>rfbInitClient\<close> does and what the ping answers.\<close>

definition sampleAttempt :: "(driver \<Rightarrow> bool \<times> driver) \<Rightarrow> bool \<Rightarrow> attempt_input" where
  "sampleAttempt init ping =
     \<lparr>newClient = 0, newClientInit = sampleClient, initClient = init, pingResult = ping,
      connectedNow = 0\<rparr>"

text \<open>Clients of a server that announces a screen of width 0, and of one that announces
  32768 x 32768 pixels; both are values the 16-bit fields of the protocol can carry.\<close>

definition emptyScreenClients :: "nat \<Rightarrow> rfbClient" where
  "emptyScreenClients = (\<lambda>a. sampleClient\<lparr>width := 0\<rparr>)"

definition largeScreenClients :: "nat \<Rightarrow> rfbClient" where
  "largeScreenClients = (\<lambda>a. sampleClient\<lparr>width := 32768, height := 32768\<rparr>)"

section \<open>Facts shared by the proofs\<close>

lemma flagBit_less: "flagBit f < 32"
  by (cases f) simp_all

lemma bit_flagMask: "bit (flagMask f) n \<longleftrightarrow> n = flagBit f"
  using flagBit_less [of f]
  by (auto simp: flagMask_def bit_push_bit_iff bit_1_iff bit_exp_iff)

lemma flagBit_inj: "flagBit f = flagBit g \<longleftrightarrow> f = g"
  by (cases f; cases g) simp_all

lemma isControlFlagSet_bit: "isControlFlagSet f s \<longleftrightarrow> bit (m_controlFlags s) (flagBit f)"
  unfolding isControlFlagSet_def flagMask_def
  by (simp add: bit_iff_and_push_bit_not_eq_0)

lemma isControlFlagSet_setControlFlag:
  "isControlFlagSet f (setControlFlag g on s) = (if f = g then on else isControlFlagSet f s)"
  using flagBit_less [of f]
  by (auto simp: isControlFlagSet_bit setControlFlag_def bit_and_iff bit_or_iff bit_not_iff
      bit_flagMask flagBit_inj)

lemma isControlFlagSet_fields [simp]:
  "isControlFlagSet f (s\<lparr>m_scaledFramebuffer := img\<rparr>) = isControlFlagSet f s"
  "isControlFlagSet f (s\<lparr>m_scaledSize := sz\<rparr>) = isControlFlagSet f s"
  "isControlFlagSet f (s\<lparr>m_framebufferUpdateInterval := i\<rparr>) = isControlFlagSet f s"
  "isControlFlagSet f (s\<lparr>m_framebufferUpdateWatchdog := t\<rparr>) = isControlFlagSet f s"
  "isControlFlagSet f (s\<lparr>m_client := c\<rparr>) = isControlFlagSet f s"
  "isControlFlagSet f (s\<lparr>m_eventQueue := q\<rparr>) = isControlFlagSet f s"
  "isControlFlagSet f (s\<lparr>m_state := st\<rparr>) = isControlFlagSet f s"
  "isControlFlagSet f (s\<lparr>m_framebufferState := fs\<rparr>) = isControlFlagSet f s"
  "isControlFlagSet f (perform e s) = isControlFlagSet f s"
  by (simp_all add: isControlFlagSet_def perform_def)

lemma setControlFlag_fields [simp]:
  "m_scaledFramebuffer (setControlFlag f on s) = m_scaledFramebuffer s"
  "m_scaledSize (setControlFlag f on s) = m_scaledSize s"
  "m_image (setControlFlag f on s) = m_image s"
  "m_framebufferState (setControlFlag f on s) = m_framebufferState s"
  "m_state (setControlFlag f on s) = m_state s"
  "m_client (setControlFlag f on s) = m_client s"
  "m_host (setControlFlag f on s) = m_host s"
  "m_eventQueue (setControlFlag f on s) = m_eventQueue s"
  "effects (setControlFlag f on s) = effects s"
  "m_framebufferUpdateInterval (setControlFlag f on s) = m_framebufferUpdateInterval s"
  "m_connectionRetryInterval (setControlFlag f on s) = m_connectionRetryInterval s"
  "m_framebufferUpdateWatchdog (setControlFlag f on s) = m_framebufferUpdateWatchdog s"
  "m_framebufferUpdateWatchdogTimeout (setControlFlag f on s) = m_framebufferUpdateWatchdogTimeout s"
  by (simp_all add: setControlFlag_def)

lemma perform_fields [simp]:
  "m_scaledFramebuffer (perform e s) = m_scaledFramebuffer s"
  "m_scaledSize (perform e s) = m_scaledSize s"
  "m_image (perform e s) = m_image s"
  "m_framebufferState (perform e s) = m_framebufferState s"
  "m_state (perform e s) = m_state s"
  "m_client (perform e s) = m_client s"
  "m_host (perform e s) = m_host s"
  "m_eventQueue (perform e s) = m_eventQueue s"
  "m_controlFlags (perform e s) = m_controlFlags s"
  "effects (perform e s) = effects s @ [e]"
  "m_framebufferUpdateInterval (perform e s) = m_framebufferUpdateInterval s"
  "m_connectionRetryInterval (perform e s) = m_connectionRetryInterval s"
  "m_framebufferUpdateWatchdog (perform e s) = m_framebufferUpdateWatchdog s"
  "m_framebufferUpdateWatchdogTimeout (perform e s) = m_framebufferUpdateWatchdogTimeout s"
  by (simp_all add: perform_def)

lemma nearestScaled_contract: "scaledContract nearestScaled"
  by (simp add: scaledContract_def nearestScaled_def)

lemma zeroed_le:
  "((n * RfbBytesPerPixel) mod 2 ^ 32) div RfbBytesPerPixel \<le> (n::nat)"
proof -
  have "(n * 4) mod 2 ^ 32 \<le> n * 4"
    by (rule mod_less_eq_dividend)
  then have "((n * 4) mod 2 ^ 32) div 4 \<le> n"
    by linarith
  then show ?thesis
    by (simp only: RfbBytesPerPixel_def)
qed

lemma pixelCount_exact:
  assumes "0 \<le> w" "0 \<le> h" "w * h < 2 ^ 30"
  shows "nat ((w * h) mod 2 ^ 32) = nat (w * h)"
proof -
  have "0 \<le> w * h" using assms by simp
  moreover have "w * h < 2 ^ 32" using assms(3) by simp
  ultimately show ?thesis by simp
qed

lemma zeroed_exact:
  assumes "0 \<le> w" "0 \<le> h" "w * h < 2 ^ 30"
  shows "((nat (w * h) * RfbBytesPerPixel) mod 2 ^ 32) div RfbBytesPerPixel = nat (w * h)"
proof -
  have "0 \<le> w * h" using assms by simp
  then have "nat (w * h) < 2 ^ 30"
    using assms(3) by (simp add: nat_less_iff)
  then have "nat (w * h) * 4 < (2 :: nat) ^ 32" by simp
  then have "((nat (w * h) * 4) mod 2 ^ 32) div 4 = nat (w * h)"
    by simp
  then show ?thesis
    by (simp only: RfbBytesPerPixel_def)
qed

lemma length_pixelBuffer: "length (pixelBuffer uninit w h) = nat ((w * h) mod 2 ^ 32)"
  using zeroed_le [of "nat ((w * h) mod 2 ^ 32)"]
  by (simp only: pixelBuffer_def Let_def length_append length_replicate length_map length_upt)

lemma pixelBuffer_zero:
  assumes "0 \<le> w" "0 \<le> h" "w * h < 2 ^ 30"
  shows "pixelBuffer uninit w h = replicate (nat (w * h)) 0"
  unfolding pixelBuffer_def Let_def pixelCount_exact [OF assms] zeroed_exact [OF assms]
  by simp

lemma initFrameBuffer_wrong_depth:
  assumes "m_client s = Some c" "bitsPerPixel (format (cl c)) \<noteq> 32"
  shows "initFrameBuffer uninit (s, cl) = Some (False, (s, cl))"
  using assms by (simp add: initFrameBuffer_def RfbBitsPerSample_def RfbBytesPerPixel_def)

lemma initFrameBuffer_depth_32:
  assumes "m_client s = Some c" "bitsPerPixel (format (cl c)) = 32"
  shows "\<exists>s' cl'. initFrameBuffer uninit (s, cl) = Some (True, (s', cl'))
     \<and> frameBuffer (cl' c) = Some (pixelBuffer uninit (width (cl c)) (height (cl c)))
     \<and> m_image s' = wrapImage (pixelBuffer uninit (width (cl c)) (height (cl c)))
                       (width (cl c)) (height (cl c))
     \<and> redMax (format (cl' c)) = 0xFF \<and> greenMax (format (cl' c)) = 0xFF
     \<and> blueMax (format (cl' c)) = 0xFF
     \<and> redShift (format (cl' c)) = 16 \<and> greenShift (format (cl' c)) = 8
     \<and> blueShift (format (cl' c)) = 0
     \<and> m_framebufferState s' = Initialized
     \<and> effects s' = effects s @ [Emit (framebufferSizeChanged (width (cl c)) (height (cl c)))]"
  using assms
  by (simp add: initFrameBuffer_def updateEncodingSettingsFromQuality_def Let_def
      RfbBitsPerSample_def RfbBytesPerPixel_def)

declare sendEvents.simps [simp del]

lemma sendEvents_result:
  "sendEvents s =
     s\<lparr>m_eventQueue := [],
       effects := effects s @ (if isControlFlagSet TerminateThread s then []
                               else map (\<lambda>e. Codec (FireEvent e)) (m_eventQueue s))\<rparr>"
proof (induction s rule: sendEvents.induct)
  case (1 s)
  show ?case
  proof (cases "m_eventQueue s")
    case Nil
    have "s\<lparr>m_eventQueue := [], effects := effects s\<rparr> = s"
      using Nil by (cases s) simp
    then show ?thesis
      using Nil by (subst sendEvents.simps) simp
  next
    case (Cons event rest)
    let ?s1 = "s\<lparr>m_eventQueue := rest\<rparr>"
    let ?s2 = "if isControlFlagSet TerminateThread ?s1 = False then fire event ?s1 else ?s1"
    have step: "sendEvents s = sendEvents ?s2"
      using Cons by (subst sendEvents.simps) (simp add: Let_def)
    have ih: "sendEvents ?s2 =
       ?s2\<lparr>m_eventQueue := [],
         effects := effects ?s2 @ (if isControlFlagSet TerminateThread ?s2 then []
                               else map (\<lambda>e. Codec (FireEvent e)) (m_eventQueue ?s2))\<rparr>"
      using "1.IH" [OF Cons refl] .
    show ?thesis
      unfolding step ih using Cons
      by (simp add: fire_def perform_def isControlFlagSet_def)
  qed
qed


lemma filter_fired: "filter isUpdateRequest (map (\<lambda>e. Codec (FireEvent e)) q) = []"
  by (induction q) simp_all

lemma pumpTail_result:
  "\<exists>later. pumpTail inp (s, cl) =
       (s\<lparr>m_eventQueue := [], effects := effects s @ later\<rparr>, cl)
     \<and> filter isUpdateRequest later = []"
proof -
  let ?rem = "m_framebufferUpdateInterval s - loopElapsed inp"
  let ?wait = "?rem > 0 \<and> isControlFlagSet RequiresManualUpdateRateControl s \<and>
                    isControlFlagSet TerminateThread s = False"
  let ?fired = "if isControlFlagSet TerminateThread s then []
                else map (\<lambda>e. Codec (FireEvent e)) (m_eventQueue s)"
  let ?later = "(if ?wait then [TimedWait ?rem] else []) @ ?fired"
  have "pumpTail inp (s, cl) = (s\<lparr>m_eventQueue := [], effects := effects s @ ?later\<rparr>, cl)"
    by (simp add: pumpTail_def Let_def sendEvents_result perform_def isControlFlagSet_def)
  moreover have "filter isUpdateRequest ?later = []"
    by (simp add: filter_fired)
  ultimately show ?thesis by blast
qed

lemma prepared_flags:
  "isControlFlagSet f (fst (prepareClient this inp (s, cl))) =
     (if f = ServerReachable then False else isControlFlagSet f s)"
  by (simp add: prepareClient_def setClientData_def Let_def isControlFlagSet_setControlFlag)

lemma prepared_framebufferState:
  "m_framebufferState (fst (prepareClient this inp (s, cl))) = m_framebufferState s"
  by (simp add: prepareClient_def setClientData_def Let_def)

lemma sample_flags: "\<not> isControlFlagSet f sampleConnection"
  by (simp add: isControlFlagSet_def sampleConnection_def)

lemma isNull_isEmpty: "isNull sz \<Longrightarrow> isEmpty sz"
  by (simp add: isNull_def isEmpty_def)

lemma scaledContract_cases:
  assumes "scaledContract scaled"
  shows "if img = nullImage \<or> isEmpty sz then scaled img sz IgnoreAspectRatio tm = nullImage
         else imgSize (scaled img sz IgnoreAspectRatio tm) = sz"
  using assms unfolding scaledContract_def by blast

lemma scaledContract_null:
  assumes "scaledContract scaled" "img = nullImage \<or> isEmpty sz"
  shows "scaled img sz IgnoreAspectRatio tm = nullImage"
  using scaledContract_cases [OF assms(1), of img sz tm] assms(2) by simp

lemma scaledContract_size:
  assumes "scaledContract scaled" "img \<noteq> nullImage" "\<not> isEmpty sz"
  shows "imgSize (scaled img sz IgnoreAspectRatio tm) = sz"
  using scaledContract_cases [OF assms(1), of img sz tm] assms(2,3) by simp

lemma scaledImageCurrent_rescaleFramebuffer:
  assumes "scaledContract scaled" "scaledImageCurrent s"
  shows "scaledImageCurrent (rescaleFramebuffer scaled s)"
proof (cases "\<not> hasValidFramebuffer s \<or> isNull (m_scaledSize s)")
  case True
  then have "rescaleFramebuffer scaled s = s\<lparr>m_scaledFramebuffer := nullImage\<rparr>"
    by (auto simp: rescaleFramebuffer_def)
  then show ?thesis
    using True assms(2) by (auto simp: scaledImageCurrent_def hasValidFramebuffer_def)
next
  case False
  let ?new = "scaled (m_image s) (m_scaledSize s) IgnoreAspectRatio SmoothTransformation"
  show ?thesis
  proof (cases "isControlFlagSet ScaledFramebufferNeedsUpdate s \<and> isValid (imgSize (m_image s))")
    case no: False
    then have "rescaleFramebuffer scaled s = s"
      using False by (auto simp: rescaleFramebuffer_def)
    then show ?thesis using assms(2) by simp
  next
    case yes: True
    have res: "rescaleFramebuffer scaled s =
        setControlFlag ScaledFramebufferNeedsUpdate False (s\<lparr>m_scaledFramebuffer := ?new\<rparr>)"
      using False yes by (simp add: rescaleFramebuffer_def)
    have fit: "if m_image s = nullImage \<or> isEmpty (m_scaledSize s) then ?new = nullImage
        else imgSize ?new = m_scaledSize s"
      by (rule scaledContract_cases [OF assms(1)])
    show ?thesis
      unfolding res scaledImageCurrent_def using fit yes
      by (simp add: hasValidFramebuffer_def)
  qed
qed

lemma scaledImageCurrent_setScaledSize:
  assumes "scaledImageCurrent s"
  shows "scaledImageCurrent (setScaledSize sz s)"
  using assms
  by (auto simp: scaledImageCurrent_def setScaledSize_def hasValidFramebuffer_def
      isControlFlagSet_setControlFlag)

lemma scaledImageCurrent_new:
  "m_framebufferState s = Invalid \<Longrightarrow> m_image s = nullImage \<Longrightarrow> scaledImageCurrent s"
  by (simp add: scaledImageCurrent_def hasValidFramebuffer_def nullImage_def isValid_def mkSize_def)

lemma scaledImageCurrent_cong:
  assumes "m_image t = m_image s" "m_framebufferState t = m_framebufferState s"
    "m_scaledSize t = m_scaledSize s" "m_scaledFramebuffer t = m_scaledFramebuffer s"
    "m_controlFlags t = m_controlFlags s"
  shows "scaledImageCurrent t = scaledImageCurrent s"
  using assms by (simp add: scaledImageCurrent_def hasValidFramebuffer_def isControlFlagSet_def)

lemma scaledImageCurrent_dirty:
  assumes "scaledImageCurrent s"
  shows "scaledImageCurrent (setControlFlag ScaledFramebufferNeedsUpdate True s)"
  using assms
  by (simp add: scaledImageCurrent_def hasValidFramebuffer_def isControlFlagSet_setControlFlag)

lemma scaledImageCurrent_other_flag:
  assumes "scaledImageCurrent s" "g \<noteq> ScaledFramebufferNeedsUpdate"
  shows "scaledImageCurrent (setControlFlag g on s)"
  using assms
  by (simp add: scaledImageCurrent_def hasValidFramebuffer_def isControlFlagSet_setControlFlag)

lemma scaledImageCurrent_not_valid:
  assumes "scaledImageCurrent s" "st \<noteq> Valid"
  shows "scaledImageCurrent (s\<lparr>m_framebufferState := st\<rparr>)"
  using assms by (simp add: scaledImageCurrent_def hasValidFramebuffer_def)

lemma scaledImageCurrent_unaffected:
  "scaledImageCurrent (perform e s) = scaledImageCurrent s"
  "scaledImageCurrent (setState st s) = scaledImageCurrent s"
  "scaledImageCurrent (enqueueEvent event s) = scaledImageCurrent s"
  "scaledImageCurrent (setHost host s) = scaledImageCurrent s"
  "scaledImageCurrent (setPort port s) = scaledImageCurrent s"
  "scaledImageCurrent (sendEvents s) = scaledImageCurrent s"
  "scaledImageCurrent (s\<lparr>m_client := c\<rparr>) = scaledImageCurrent s"
  "scaledImageCurrent (s\<lparr>m_quality := q\<rparr>) = scaledImageCurrent s"
  "scaledImageCurrent (s\<lparr>m_useRemoteCursor := b\<rparr>) = scaledImageCurrent s"
  "scaledImageCurrent (s\<lparr>m_framebufferUpdateInterval := i\<rparr>) = scaledImageCurrent s"
  "scaledImageCurrent (s\<lparr>m_framebufferUpdateWatchdog := t\<rparr>) = scaledImageCurrent s"
  by (rule scaledImageCurrent_cong;
      simp add: perform_def setState_def enqueueEvent_def setHost_def setPort_def
        sendEvents_result Let_def split: option.split)+

lemma scaledImageCurrent_kept:
  assumes "scaledImageCurrent s"
  shows "scaledImageCurrent (finishFrameBufferUpdate now s)"
    and "scaledImageCurrent (setFramebufferUpdateInterval i s)"
    and "scaledImageCurrent (setServerReachable s)"
    and "scaledImageCurrent (restart s)"
    and "scaledImageCurrent (setState st s)"
    and "scaledImageCurrent (enqueueEvent event s)"
    and "scaledImageCurrent (setHost host s)"
    and "scaledImageCurrent (sendEvents s)"
    and "scaledImageCurrent
           ((setControlFlag RestartConnection False (setState Connecting s))\<lparr>m_framebufferState := Invalid\<rparr>)"
    and "scaledImageCurrent (fst (closeConnection (s, cl)))"
    and "scaledImageCurrent (fst (setUseRemoteCursor enabled (s, cl)))"
proof -
  show "scaledImageCurrent (finishFrameBufferUpdate now s)"
    using assms
    by (simp add: finishFrameBufferUpdate_def scaledImageCurrent_def isControlFlagSet_setControlFlag)
  show "scaledImageCurrent (setFramebufferUpdateInterval i s)"
    using assms
    by (simp add: setFramebufferUpdateInterval_def Let_def scaledImageCurrent_unaffected
        scaledImageCurrent_other_flag)
  show "scaledImageCurrent (setServerReachable s)"
    using assms by (simp add: setServerReachable_def scaledImageCurrent_other_flag)
  show "scaledImageCurrent (restart s)"
    using assms by (simp add: restart_def scaledImageCurrent_other_flag)
  show "scaledImageCurrent (setState st s)" "scaledImageCurrent (enqueueEvent event s)"
    "scaledImageCurrent (setHost host s)" "scaledImageCurrent (sendEvents s)"
    using assms by (simp_all add: scaledImageCurrent_unaffected)
  show "scaledImageCurrent
           ((setControlFlag RestartConnection False (setState Connecting s))\<lparr>m_framebufferState := Invalid\<rparr>)"
    using assms
    by (simp add: scaledImageCurrent_not_valid scaledImageCurrent_other_flag
        scaledImageCurrent_unaffected)
  show "scaledImageCurrent (fst (closeConnection (s, cl)))"
    using assms by (simp add: closeConnection_def scaledImageCurrent_unaffected)
  show "scaledImageCurrent (fst (setUseRemoteCursor enabled (s, cl)))"
    using assms
    by (simp add: setUseRemoteCursor_def Let_def scaledImageCurrent_unaffected split: option.split)
qed

lemma wrapImage_valid: "isValid (imgSize (wrapImage bits w h))"
  by (simp add: wrapImage_def nullImage_def mkSize_def isValid_def)

lemma scaledImageCurrent_initFrameBuffer:
  assumes "scaledImageCurrent s" "initFrameBuffer uninit (s, cl) = Some (r, (s', cl'))"
  shows "scaledImageCurrent s'"
proof (cases "m_client s")
  case None
  then show ?thesis using assms(2) by (simp add: initFrameBuffer_def)
next
  case (Some c)
  show ?thesis
  proof (cases "bitsPerPixel (format (cl c)) = 32")
    case False
    then have "s' = s"
      using initFrameBuffer_wrong_depth [of s c cl uninit] Some assms(2) by simp
    then show ?thesis using assms(1) by simp
  next
    case True
    from initFrameBuffer_depth_32 [of s c cl uninit] Some True assms(2)
    have "m_image s' = wrapImage (pixelBuffer uninit (width (cl c)) (height (cl c)))
                       (width (cl c)) (height (cl c))"
      and "m_framebufferState s' = Initialized"
      by auto
    then show ?thesis
      by (simp add: scaledImageCurrent_def hasValidFramebuffer_def wrapImage_valid)
  qed
qed


lemma scaledImageCurrent_setQuality:
  assumes "scaledImageCurrent s" "setQuality quality (s, cl) = Some (s', cl')"
  shows "scaledImageCurrent s'"
  using assms
  by (auto simp: setQuality_def updateEncodingSettingsFromQuality_def Let_def
      scaledImageCurrent_unaffected split: option.splits if_splits)

lemma pixelBuffer_wrapped:
  "pixelBuffer uninit 32768 32768 = map uninit [0 ..< 1073741824]"
proof -
  have pc: "nat ((32768 * 32768) mod 2 ^ 32) = (1073741824 :: nat)"
    by simp
  have z: "((1073741824 * RfbBytesPerPixel) mod 2 ^ 32) div RfbBytesPerPixel = 0"
    by (simp add: RfbBytesPerPixel_def)
  show ?thesis
    unfolding pixelBuffer_def Let_def pc z
    by (simp only: replicate_0 append_Nil)
qed

lemma firstMatch_bracketed:
  "firstMatch hostPatterns ''[2001:db8::1]:5901'' = Some [''2001:db8::1'', ''5901'']"
  by code_simp

lemma firstMatch_mapped:
  "firstMatch hostPatterns ''::ffff:10.0.0.5:5900'' = Some [''10.0.0.5'', ''5900'']"
  by code_simp

lemma firstMatch_plain: "firstMatch hostPatterns ''example.local'' = None"
  by code_simp

lemma toInt_5901: "toInt ''5901'' = 5901"
  by code_simp

lemma toInt_5900: "toInt ''5900'' = 5900"
  by code_simp

section \<open>The claims\<close>

text \<open>
  C1. \<^verbatim>\<open>setHost\<close> on the three host strings of the spec's scenarios, from any connection
  object: the bracketed IPv6 address with port gives host \<^verbatim>\<open>2001:db8::1\<close> and port 5901 (fourth
  pattern), the IPv4-mapped address with port gives host \<^verbatim>\<open>10.0.0.5\<close> and port 5900 (second
  pattern), and \<^verbatim>\<open>example.local\<close> matches no pattern, so the host is stored as entered and
  the port keeps its value.
\<close>

theorem setHost_scenarios:
  "setHost ''[2001:db8::1]:5901'' s = s\<lparr>m_host := ''2001:db8::1'', m_port := 5901\<rparr>
   \<and> setHost ''::ffff:10.0.0.5:5900'' s = s\<lparr>m_host := ''10.0.0.5'', m_port := 5900\<rparr>
   \<and> setHost ''example.local'' s = s\<lparr>m_host := ''example.local''\<rparr>"
  by (simp add: setHost_def captured_def firstMatch_bracketed firstMatch_mapped
      firstMatch_plain toInt_5901 toInt_5900)

text \<open>
  C4. For every quality level \<open>Q\<close>, \<^verbatim>\<open>updateEncodingSettingsFromQuality\<close> on a connection
  with quality \<open>Q\<close> and a client leaves the connection object as it is and sets, in the
  client's application data, the compression level to 9, JPEG to \<open>Q \<noteq> Highest\<close>, the
  quality level to 9, 7, 5, 3, 0 for Highest, High, Medium, Low, Lowest, and the encodings
  string to the lossless list for Highest and to \<^verbatim>\<open>tight zywrle zrle ultra\<close> otherwise.
\<close>

theorem quality_profile:
  assumes "m_client s = Some c"
  shows "\<exists>cl'. updateEncodingSettingsFromQuality (s\<lparr>m_quality := Q\<rparr>, cl) = Some (s\<lparr>m_quality := Q\<rparr>, cl')
      \<and> compressLevel (appData (cl' c)) = 9
      \<and> enableJPEG (appData (cl' c)) = (Q \<noteq> Highest)
      \<and> qualityLevel (appData (cl' c)) =
          (case Q of Highest \<Rightarrow> 9 | High \<Rightarrow> 7 | Medium \<Rightarrow> 5 | Low \<Rightarrow> 3 | Lowest \<Rightarrow> 0)
      \<and> encodingsString (appData (cl' c)) =
          (if Q = Highest then ''zrle ultra copyrect hextile zlib corre rre raw''
           else ''tight zywrle zrle ultra'')"
  using assms by (simp add: updateEncodingSettingsFromQuality_def)

theorem quality_profile_witness:
  "m_client (sampleConnection\<lparr>m_client := Some 0\<rparr>) = Some 0
   \<and> (\<exists>cl'. updateEncodingSettingsFromQuality
               (sampleConnection\<lparr>m_client := Some 0, m_quality := Lowest\<rparr>, sampleClients)
             = Some (sampleConnection\<lparr>m_client := Some 0, m_quality := Lowest\<rparr>, cl')
        \<and> compressLevel (appData (cl' 0)) = 9
        \<and> enableJPEG (appData (cl' 0)) = True
        \<and> qualityLevel (appData (cl' 0)) = 0
        \<and> encodingsString (appData (cl' 0)) = ''tight zywrle zrle ultra'')"
  using quality_profile [of "sampleConnection\<lparr>m_client := Some 0\<rparr>" 0 Lowest sampleClients]
  by simp




text \<open>
  C5, as the code has it, for a scaling routine that meets the contract of
  \<^verbatim>\<open>QImage::scaled\<close>. On a connection object whose stored scaled image is current,
  \<^verbatim>\<open>setScaledSize(sz)\<close> followed by \<^verbatim>\<open>scaledFramebuffer()\<close> returns an image of size \<open>sz\<close>
  whenever a valid framebuffer with a pixel buffer that is not the null image exists and
  \<open>sz\<close> is not empty, and returns the empty image otherwise; the stored image is current
  afterwards too. That the stored image is current holds for a new object
  (\<open>scaledImageCurrent_new\<close>) and is kept by \<^verbatim>\<open>setScaledSize\<close>, \<^verbatim>\<open>rescaleFramebuffer\<close>,
  \<^verbatim>\<open>initFrameBuffer\<close>, \<^verbatim>\<open>finishFrameBufferUpdate\<close> and the other mutators
  (\<open>scaledImageCurrent_kept\<close> and the lemmas beside it); \<^verbatim>\<open>stop()\<close> breaks it.
\<close>

theorem scaled_after_setScaledSize:
  assumes "scaledContract scaled" and "scaledImageCurrent s"
  shows
  "(hasValidFramebuffer s \<and> m_image s \<noteq> nullImage \<and> \<not> isEmpty sz \<longrightarrow>
      imgSize (fst (scaledFramebuffer scaled (setScaledSize sz s))) = sz)
   \<and> (\<not> (hasValidFramebuffer s \<and> m_image s \<noteq> nullImage \<and> \<not> isEmpty sz) \<longrightarrow>
      fst (scaledFramebuffer scaled (setScaledSize sz s)) = nullImage)
   \<and> scaledImageCurrent (snd (scaledFramebuffer scaled (setScaledSize sz s)))"
proof -
  let ?t = "setScaledSize sz s"
  have cur: "scaledImageCurrent ?t"
    using assms(2) by (rule scaledImageCurrent_setScaledSize)
  have kept: "scaledImageCurrent (rescaleFramebuffer scaled ?t)"
    using assms(1) cur by (rule scaledImageCurrent_rescaleFramebuffer)
  have fields: "hasValidFramebuffer ?t = hasValidFramebuffer s" "m_scaledSize ?t = sz"
    "m_image ?t = m_image s"
    by (simp_all add: setScaledSize_def hasValidFramebuffer_def)
  have res: "fst (scaledFramebuffer scaled ?t) = m_scaledFramebuffer (rescaleFramebuffer scaled ?t)"
    "snd (scaledFramebuffer scaled ?t) = rescaleFramebuffer scaled ?t"
    by (simp_all add: scaledFramebuffer_def Let_def)
  have valid: "isValid (imgSize (m_image ?t))"
    using cur by (simp add: scaledImageCurrent_def)
  have out: "m_scaledFramebuffer (rescaleFramebuffer scaled ?t) =
      (if \<not> hasValidFramebuffer s \<or> isNull sz then nullImage
       else if \<not> isControlFlagSet ScaledFramebufferNeedsUpdate ?t then m_scaledFramebuffer ?t
       else scaled (m_image s) sz IgnoreAspectRatio SmoothTransformation)"
    using valid by (simp add: rescaleFramebuffer_def fields)
  have stored: "hasValidFramebuffer s \<Longrightarrow> \<not> isNull sz \<Longrightarrow>
      \<not> isControlFlagSet ScaledFramebufferNeedsUpdate ?t \<Longrightarrow>
      (if m_image s = nullImage \<or> isEmpty sz then m_scaledFramebuffer ?t = nullImage
       else imgSize (m_scaledFramebuffer ?t) = sz)"
    using cur by (simp add: scaledImageCurrent_def fields)
  have first: "hasValidFramebuffer s \<and> m_image s \<noteq> nullImage \<and> \<not> isEmpty sz \<longrightarrow>
      imgSize (m_scaledFramebuffer (rescaleFramebuffer scaled ?t)) = sz"
    using stored scaledContract_size [OF assms(1), of "m_image s" sz SmoothTransformation]
      isNull_isEmpty [of sz]
    unfolding out by auto
  have second: "\<not> (hasValidFramebuffer s \<and> m_image s \<noteq> nullImage \<and> \<not> isEmpty sz) \<longrightarrow>
      m_scaledFramebuffer (rescaleFramebuffer scaled ?t) = nullImage"
    using stored scaledContract_null [OF assms(1), of "m_image s" sz SmoothTransformation]
    unfolding out by auto
  show ?thesis
    unfolding res using first second kept by blast
qed


text \<open>The theorem at an object with a valid 2 x 2 framebuffer and the default scaled size,
  asked for 4 x 4, and at a new object, which has no valid framebuffer.\<close>

theorem scaled_after_setScaledSize_witness:
  "scaledContract nearestScaled
   \<and> scaledImageCurrent (sampleConnection\<lparr>m_framebufferState := Valid, m_image := sampleImage\<rparr>)
   \<and> imgSize (fst (scaledFramebuffer nearestScaled
        (setScaledSize (mkSize 4 4)
           (sampleConnection\<lparr>m_framebufferState := Valid, m_image := sampleImage\<rparr>)))) = mkSize 4 4
   \<and> scaledImageCurrent sampleConnection
   \<and> fst (scaledFramebuffer nearestScaled (setScaledSize (mkSize 4 4) sampleConnection)) = nullImage"
proof -
  let ?v = "sampleConnection\<lparr>m_framebufferState := Valid, m_image := sampleImage\<rparr>"
  have cur: "scaledImageCurrent ?v"
    by (simp add: scaledImageCurrent_def hasValidFramebuffer_def sampleConnection_def
        sampleImage_def nullImage_def mkSize_def isValid_def isNull_def isEmpty_def
        isControlFlagSet_def)
  have new: "scaledImageCurrent sampleConnection"
    by (rule scaledImageCurrent_new) (simp_all add: sampleConnection_def)
  have v: "hasValidFramebuffer ?v \<and> m_image ?v \<noteq> nullImage \<and> \<not> isEmpty (mkSize 4 4)"
    by (simp add: hasValidFramebuffer_def sampleConnection_def mkSize_def
        isEmpty_def sampleImage_def nullImage_def)
  have n: "\<not> hasValidFramebuffer sampleConnection"
    by (simp add: hasValidFramebuffer_def sampleConnection_def)
  show ?thesis
    using v n cur new nearestScaled_contract
      scaled_after_setScaledSize [OF nearestScaled_contract cur, of "mkSize 4 4"]
      scaled_after_setScaledSize [OF nearestScaled_contract new, of "mkSize 4 4"]
    by blast
qed

text \<open>C5 as stated fails in two ways. First, a connection with a valid framebuffer is asked
  for a 4 x 4 scaled image and returns one; \<^verbatim>\<open>stop()\<close> then drops the stored scaled image
  without marking it dirty, so the stored image is no longer current; the framebuffer is
  still valid and 4 x 4 is not empty, yet \<^verbatim>\<open>setScaledSize\<close> with the same size followed by
  \<^verbatim>\<open>scaledFramebuffer()\<close> now returns the empty image. Second, a server announces a screen
  of width 0: \<^verbatim>\<open>initFrameBuffer\<close> succeeds with the null image as pixel buffer, the first
  finished update makes the framebuffer valid, the stored image is current, and scaling to
  4 x 4 returns the empty image.\<close>

theorem scaled_size_not_guaranteed:
  "scaledImageCurrent (sampleConnection\<lparr>m_framebufferState := Valid, m_image := sampleImage\<rparr>)
   \<and> \<not> isEmpty (mkSize 4 4)
   \<and> (case scaledFramebuffer nearestScaled
             (setScaledSize (mkSize 4 4)
                (sampleConnection\<lparr>m_framebufferState := Valid, m_image := sampleImage\<rparr>)) of
         (img1, s1) \<Rightarrow>
           imgSize img1 = mkSize 4 4
           \<and> (case stop (s1, sampleClients) of
                 (s2, cl2) \<Rightarrow>
                   hasValidFramebuffer s2 \<and> m_image s2 \<noteq> nullImage
                   \<and> \<not> scaledImageCurrent s2
                   \<and> fst (scaledFramebuffer nearestScaled (setScaledSize (mkSize 4 4) s2)) = nullImage
                   \<and> imgSize (fst (scaledFramebuffer nearestScaled (setScaledSize (mkSize 4 4) s2)))
                       \<noteq> mkSize 4 4))
   \<and> (\<exists>s1 cl1.
         initFrameBuffer (\<lambda>i. 7) (sampleConnection\<lparr>m_client := Some 0\<rparr>, emptyScreenClients)
           = Some (True, (s1, cl1))
         \<and> hasValidFramebuffer (finishFrameBufferUpdate 5 s1)
         \<and> scaledImageCurrent (finishFrameBufferUpdate 5 s1)
         \<and> fst (scaledFramebuffer nearestScaled
                  (setScaledSize (mkSize 4 4) (finishFrameBufferUpdate 5 s1))) = nullImage
         \<and> imgSize (fst (scaledFramebuffer nearestScaled
                  (setScaledSize (mkSize 4 4) (finishFrameBufferUpdate 5 s1)))) \<noteq> mkSize 4 4)"
proof -
  let ?v = "sampleConnection\<lparr>m_framebufferState := Valid, m_image := sampleImage\<rparr>"
  have cur: "scaledImageCurrent ?v"
    by (simp add: scaledImageCurrent_def hasValidFramebuffer_def sampleConnection_def
        sampleImage_def nullImage_def mkSize_def isValid_def isNull_def isEmpty_def
        isControlFlagSet_def)
  have four: "\<not> isEmpty (mkSize 4 4)" "\<not> isNull (mkSize 4 4)" "nullImage \<noteq> sampleImage"
    "imgSize nullImage \<noteq> mkSize 4 4" "isValid (imgSize nullImage)"
    by (simp_all add: isEmpty_def isNull_def mkSize_def nullImage_def sampleImage_def isValid_def)
  have stopped: "case scaledFramebuffer nearestScaled (setScaledSize (mkSize 4 4) ?v) of
         (img1, s1) \<Rightarrow>
           imgSize img1 = mkSize 4 4
           \<and> (case stop (s1, sampleClients) of
                 (s2, cl2) \<Rightarrow>
                   hasValidFramebuffer s2 \<and> m_image s2 \<noteq> nullImage
                   \<and> \<not> scaledImageCurrent s2
                   \<and> fst (scaledFramebuffer nearestScaled (setScaledSize (mkSize 4 4) s2)) = nullImage
                   \<and> imgSize (fst (scaledFramebuffer nearestScaled (setScaledSize (mkSize 4 4) s2)))
                       \<noteq> mkSize 4 4)"
    by (simp add: scaledFramebuffer_def rescaleFramebuffer_def setScaledSize_def stop_def
      setClientData_def hasValidFramebuffer_def sampleConnection_def sampleImage_def
      nullImage_def mkSize_def isEmpty_def isNull_def isValid_def nearestScaled_def
      isControlFlagSet_setControlFlag Let_def scaledImageCurrent_def)
  let ?c = "sampleConnection\<lparr>m_client := Some 0\<rparr>"
  have c: "m_client ?c = Some 0" "bitsPerPixel (format (emptyScreenClients 0)) = 32"
    "width (emptyScreenClients 0) = 0"
    by (simp_all add: emptyScreenClients_def sampleClient_def)
  from initFrameBuffer_depth_32 [of ?c 0 emptyScreenClients "\<lambda>i. 7"] c(1,2)
  obtain s1 cl1 where r: "initFrameBuffer (\<lambda>i. 7) (?c, emptyScreenClients) = Some (True, (s1, cl1))"
    and img: "m_image s1 = wrapImage (pixelBuffer (\<lambda>i. 7) (width (emptyScreenClients 0))
        (height (emptyScreenClients 0))) (width (emptyScreenClients 0)) (height (emptyScreenClients 0))"
    by blast
  have null: "m_image s1 = nullImage"
    unfolding img c(3) by (simp add: wrapImage_def)
  let ?t = "finishFrameBufferUpdate 5 s1"
  have t: "hasValidFramebuffer ?t" "m_image ?t = nullImage"
    "isControlFlagSet ScaledFramebufferNeedsUpdate ?t"
    by (simp_all add: finishFrameBufferUpdate_def hasValidFramebuffer_def
        isControlFlagSet_setControlFlag null)
  have tcur: "scaledImageCurrent ?t"
    using t four(5) by (simp add: scaledImageCurrent_def)
  let ?u = "setScaledSize (mkSize 4 4) ?t"
  have u: "hasValidFramebuffer ?u" "m_image ?u = nullImage"
    "isControlFlagSet ScaledFramebufferNeedsUpdate ?u" "m_scaledSize ?u = mkSize 4 4"
    using t by (simp_all add: setScaledSize_def hasValidFramebuffer_def isControlFlagSet_setControlFlag)
  have out: "fst (scaledFramebuffer nearestScaled ?u) = nullImage"
    using u four by (simp add: scaledFramebuffer_def rescaleFramebuffer_def Let_def nearestScaled_def)
  have server: "\<exists>s1 cl1.
         initFrameBuffer (\<lambda>i. 7) (?c, emptyScreenClients) = Some (True, (s1, cl1))
         \<and> hasValidFramebuffer (finishFrameBufferUpdate 5 s1)
         \<and> scaledImageCurrent (finishFrameBufferUpdate 5 s1)
         \<and> fst (scaledFramebuffer nearestScaled
                  (setScaledSize (mkSize 4 4) (finishFrameBufferUpdate 5 s1))) = nullImage
         \<and> imgSize (fst (scaledFramebuffer nearestScaled
                  (setScaledSize (mkSize 4 4) (finishFrameBufferUpdate 5 s1)))) \<noteq> mkSize 4 4"
    using r t(1) tcur out four(4) by (intro exI [of _ s1] exI [of _ cl1]) simp
  show ?thesis
    using cur four(1) stopped server by (intro conjI)
qed

text \<open>
  C9. While the state is not Connected, \<^verbatim>\<open>enqueueEvent\<close>, \<^verbatim>\<open>mouseEvent\<close>, \<^verbatim>\<open>keyEvent\<close> and
  \<^verbatim>\<open>clientCut\<close> return the object as it was, and the refresh event of \<^verbatim>\<open>setQuality\<close> and
  \<^verbatim>\<open>setUseRemoteCursor\<close> is dropped too: the queue and the log of effects (no wake-up) are
  as before. While the state is Connected, the event is appended at the end of the queue
  and the sleeper is woken.
\<close>

theorem events_only_while_connected:
  "(m_state s \<noteq> Connected \<longrightarrow>
      enqueueEvent event s = s
      \<and> mouseEvent x y buttonMask s = s
      \<and> keyEvent key pressed s = s
      \<and> clientCut txt s = s
      \<and> (\<exists>s' cl'. setQuality quality (s, cl) = Some (s', cl')
            \<and> m_eventQueue s' = m_eventQueue s \<and> effects s' = effects s)
      \<and> m_eventQueue (fst (setUseRemoteCursor enabled (s, cl))) = m_eventQueue s
      \<and> effects (fst (setUseRemoteCursor enabled (s, cl))) = effects s)
   \<and> (m_state s = Connected \<longrightarrow>
      m_eventQueue (enqueueEvent event s) = m_eventQueue s @ [event]
      \<and> effects (enqueueEvent event s) = effects s @ [WakeAll])"
  by (auto simp: enqueueEvent_def mouseEvent_def keyEvent_def clientCut_def setQuality_def
      setUseRemoteCursor_def updateEncodingSettingsFromQuality_def perform_def Let_def
      split: option.splits)

theorem events_only_while_connected_witness:
  "m_state sampleConnection \<noteq> Connected
   \<and> mouseEvent 10 20 1 sampleConnection = sampleConnection
   \<and> keyEvent 65 True sampleConnection = sampleConnection
   \<and> clientCut ''abc'' sampleConnection = sampleConnection
   \<and> m_state (sampleConnection\<lparr>m_state := Connected\<rparr>) = Connected
   \<and> m_eventQueue (enqueueEvent (VncKeyEvent 65 True) (sampleConnection\<lparr>m_state := Connected\<rparr>))
       = m_eventQueue (sampleConnection\<lparr>m_state := Connected\<rparr>) @ [VncKeyEvent 65 True]"
proof -
  have d: "m_state sampleConnection \<noteq> Connected"
    by (simp add: sampleConnection_def)
  have c: "m_state (sampleConnection\<lparr>m_state := Connected\<rparr>) = Connected"
    by simp
  show ?thesis
    using d c
      events_only_while_connected [of sampleConnection "VncKeyEvent 65 True" 10 20 1 65 True
        "''abc''" High sampleClients True]
      events_only_while_connected [of "sampleConnection\<lparr>m_state := Connected\<rparr>"
        "VncKeyEvent 65 True" 10 20 1 65 True "''abc''" High sampleClients True]
    by metis
qed

text \<open>
  What \<^verbatim>\<open>initFrameBuffer\<close> does, with a client attached. It returns false exactly when the
  client's bits per pixel differ from 32, and then changes nothing. Otherwise it returns
  true, the client has a new pixel array of (width x height mod 2^32) pixels which the
  framebuffer image wraps, the pixel format has maxima 0xFF at shifts 16, 8, 0, the
  framebuffer state is Initialized and \<^verbatim>\<open>framebufferSizeChanged(width, height)\<close> is the one
  signal emitted. The array is all zero when width and height are not negative and there
  are fewer than 2^30 pixels, that is when the byte count given to \<^verbatim>\<open>memset\<close> fits its
  32-bit arithmetic.
\<close>

lemma initFrameBuffer_result:
  assumes "m_client s = Some c"
  shows
  "((\<exists>d'. initFrameBuffer uninit (s, cl) = Some (False, d')) \<longleftrightarrow> bitsPerPixel (format (cl c)) \<noteq> 32)
   \<and> (bitsPerPixel (format (cl c)) \<noteq> 32 \<longrightarrow> initFrameBuffer uninit (s, cl) = Some (False, (s, cl)))
   \<and> (bitsPerPixel (format (cl c)) = 32 \<longrightarrow>
        (\<exists>s' cl' buf. initFrameBuffer uninit (s, cl) = Some (True, (s', cl'))
           \<and> frameBuffer (cl' c) = Some buf
           \<and> length buf = nat ((width (cl c) * height (cl c)) mod 2 ^ 32)
           \<and> (0 \<le> width (cl c) \<and> 0 \<le> height (cl c) \<and> width (cl c) * height (cl c) < 2 ^ 30 \<longrightarrow>
                buf = replicate (nat (width (cl c) * height (cl c))) 0)
           \<and> m_image s' = wrapImage buf (width (cl c)) (height (cl c))
           \<and> redMax (format (cl' c)) = 0xFF \<and> greenMax (format (cl' c)) = 0xFF
           \<and> blueMax (format (cl' c)) = 0xFF
           \<and> redShift (format (cl' c)) = 16 \<and> greenShift (format (cl' c)) = 8
           \<and> blueShift (format (cl' c)) = 0
           \<and> m_framebufferState s' = Initialized
           \<and> effects s' = effects s @ [Emit (framebufferSizeChanged (width (cl c)) (height (cl c)))]))"
proof (cases "bitsPerPixel (format (cl c)) = 32")
  case False
  then show ?thesis
    using initFrameBuffer_wrong_depth [of s c cl uninit] assms by simp
next
  case True
  from initFrameBuffer_depth_32 [of s c cl uninit] assms True
  obtain s' cl' where r: "initFrameBuffer uninit (s, cl) = Some (True, (s', cl'))"
    and rest: "frameBuffer (cl' c) = Some (pixelBuffer uninit (width (cl c)) (height (cl c)))"
      "m_image s' = wrapImage (pixelBuffer uninit (width (cl c)) (height (cl c)))
                       (width (cl c)) (height (cl c))"
      "redMax (format (cl' c)) = 0xFF" "greenMax (format (cl' c)) = 0xFF"
      "blueMax (format (cl' c)) = 0xFF"
      "redShift (format (cl' c)) = 16" "greenShift (format (cl' c)) = 8"
      "blueShift (format (cl' c)) = 0"
      "m_framebufferState s' = Initialized"
      "effects s' = effects s @ [Emit (framebufferSizeChanged (width (cl c)) (height (cl c)))]"
    by blast
  have zero: "0 \<le> width (cl c) \<and> 0 \<le> height (cl c) \<and> width (cl c) * height (cl c) < 2 ^ 30 \<longrightarrow>
      pixelBuffer uninit (width (cl c)) (height (cl c))
        = replicate (nat (width (cl c) * height (cl c))) 0"
    using pixelBuffer_zero by blast
  have third: "\<exists>s' cl' buf. initFrameBuffer uninit (s, cl) = Some (True, (s', cl'))
           \<and> frameBuffer (cl' c) = Some buf
           \<and> length buf = nat ((width (cl c) * height (cl c)) mod 2 ^ 32)
           \<and> (0 \<le> width (cl c) \<and> 0 \<le> height (cl c) \<and> width (cl c) * height (cl c) < 2 ^ 30 \<longrightarrow>
                buf = replicate (nat (width (cl c) * height (cl c))) 0)
           \<and> m_image s' = wrapImage buf (width (cl c)) (height (cl c))
           \<and> redMax (format (cl' c)) = 0xFF \<and> greenMax (format (cl' c)) = 0xFF
           \<and> blueMax (format (cl' c)) = 0xFF
           \<and> redShift (format (cl' c)) = 16 \<and> greenShift (format (cl' c)) = 8
           \<and> blueShift (format (cl' c)) = 0
           \<and> m_framebufferState s' = Initialized
           \<and> effects s' = effects s @ [Emit (framebufferSizeChanged (width (cl c)) (height (cl c)))]"
    using r rest zero length_pixelBuffer [of uninit "width (cl c)" "height (cl c)"] by blast
  have first: "\<not> (\<exists>d'. initFrameBuffer uninit (s, cl) = Some (False, d'))"
    using r by simp
  show ?thesis
    using True first third by blast
qed

text \<open>For example, at a client announcing 3 x 2 pixels of 32 bits, and at the same client
  announcing 16 bits per pixel.\<close>

lemma initFrameBuffer_result_example:
  "m_client (sampleConnection\<lparr>m_client := Some 0\<rparr>) = Some 0
   \<and> bitsPerPixel (format (sampleClients 0)) = 32
   \<and> (\<exists>s' cl'. initFrameBuffer (\<lambda>i. 7) (sampleConnection\<lparr>m_client := Some 0\<rparr>, sampleClients)
                   = Some (True, (s', cl'))
         \<and> frameBuffer (cl' 0) = Some (replicate 6 0)
         \<and> m_framebufferState s' = Initialized
         \<and> effects s' = [Emit (framebufferSizeChanged 3 2)])
   \<and> initFrameBuffer (\<lambda>i. 7)
        (sampleConnection\<lparr>m_client := Some 0\<rparr>,
         \<lambda>a. sampleClient\<lparr>format := (format sampleClient)\<lparr>bitsPerPixel := 16\<rparr>\<rparr>)
       = Some (False, (sampleConnection\<lparr>m_client := Some 0\<rparr>,
                       \<lambda>a. sampleClient\<lparr>format := (format sampleClient)\<lparr>bitsPerPixel := 16\<rparr>\<rparr>))"
proof -
  let ?s = "sampleConnection\<lparr>m_client := Some 0\<rparr>"
  let ?low = "\<lambda>a::nat. sampleClient\<lparr>format := (format sampleClient)\<lparr>bitsPerPixel := 16\<rparr>\<rparr>"
  have c: "m_client ?s = Some 0"
    by simp
  have facts: "bitsPerPixel (format (sampleClients 0)) = 32"
    "width (sampleClients 0) = 3" "height (sampleClients 0) = 2" "effects ?s = []"
    by (simp_all add: sampleClients_def sampleClient_def sampleConnection_def)
  have low: "bitsPerPixel (format (?low 0)) \<noteq> 32"
    by (simp add: sampleClient_def)
  have six: "nat (3 * 2) = (6::nat)" "(0::int) \<le> 3 \<and> (0::int) \<le> 2 \<and> (3::int) * 2 < 2 ^ 30"
    by simp_all
  from initFrameBuffer_result [OF c, of "\<lambda>i. 7" sampleClients] facts six
  have good: "\<exists>s' cl'. initFrameBuffer (\<lambda>i. 7) (?s, sampleClients) = Some (True, (s', cl'))
         \<and> frameBuffer (cl' 0) = Some (replicate 6 0)
         \<and> m_framebufferState s' = Initialized
         \<and> effects s' = [Emit (framebufferSizeChanged 3 2)]"
    by (simp only: append_Nil) blast
  from initFrameBuffer_result [OF c, of "\<lambda>i. 7" ?low] low
  have bad: "initFrameBuffer (\<lambda>i. 7) (?s, ?low) = Some (False, (?s, ?low))"
    by blast
  show ?thesis
    using c facts(1) good bad by blast
qed

text \<open>
  C8, at an input where the code does not do what the claim says. A server announces a
  screen of 32768 x 32768 pixels of 32 bits. \<^verbatim>\<open>initFrameBuffer\<close> returns true and allocates
  2^30 pixels, but the byte count \<^verbatim>\<open>pixelCount*RfbBytesPerPixel\<close> is 2^32, which is 0 in the
  32-bit arithmetic it is computed in, so \<^verbatim>\<open>memset\<close> clears nothing: every pixel of the
  array still holds what the allocation left there (7 in this run), none is zero.
\<close>

theorem initFrameBuffer_large_not_zeroed:
  "\<exists>s' cl'. initFrameBuffer (\<lambda>i. 7) (sampleConnection\<lparr>m_client := Some 0\<rparr>, largeScreenClients)
               = Some (True, (s', cl'))
     \<and> frameBuffer (cl' 0) = Some (replicate 1073741824 7)
     \<and> m_framebufferState s' = Initialized"
proof -
  let ?c = "sampleConnection\<lparr>m_client := Some 0\<rparr>"
  have c: "m_client ?c = Some 0" "bitsPerPixel (format (largeScreenClients 0)) = 32"
    by (simp_all add: largeScreenClients_def sampleClient_def)
  have dims: "width (largeScreenClients 0) = 32768" "height (largeScreenClients 0) = 32768"
    by (simp_all add: largeScreenClients_def)
  have buf: "pixelBuffer (\<lambda>i. 7 :: RfbPixel) 32768 32768 = replicate 1073741824 7"
    unfolding pixelBuffer_wrapped
    by (simp only: map_replicate_const length_upt diff_zero)
  from initFrameBuffer_depth_32 [of ?c 0 largeScreenClients "\<lambda>i. 7"] c
  obtain s' cl' where "initFrameBuffer (\<lambda>i. 7) (?c, largeScreenClients) = Some (True, (s', cl'))"
    and "frameBuffer (cl' 0) = Some (pixelBuffer (\<lambda>i. 7) (width (largeScreenClients 0))
        (height (largeScreenClients 0)))"
    and "m_framebufferState s' = Initialized"
    by blast
  then show ?thesis
    unfolding dims buf by blast
qed


text \<open>
  C3, as the code has it. When the registration slot of the invoking client holds no owner,
  each of the six callbacks leaves every connection object and every client as it is, so
  no state changes and no signal is emitted (the cursor-shape callback reads the client
  before the lookup, so for a 4-byte cursor this needs a client pointer that is not null).
  When an owner is registered whose \<^verbatim>\<open>m_client\<close> is not the invoking client, the
  init-framebuffer callback returns false and changes nothing; it is the only callback
  that compares the two.
\<close>

theorem hooks_without_owner:
  "(clientData client VncConnectionTag w = None \<longrightarrow>
      hookInitFrameBuffer uninit client w = Some (False, w)
      \<and> hookUpdateFB client x y rw rh w = w
      \<and> hookFinishFrameBufferUpdate now client w = w
      \<and> hookHandleCursorPos client x y w = (True, w)
      \<and> (client \<noteq> None \<or> bpp \<noteq> 4 \<longrightarrow> hookCursorShape client xh yh rw rh bpp w = Some w)
      \<and> hookCutText client txt textlen w = w)
   \<and> (\<forall>p. clientData client VncConnectionTag w = Some p \<and> m_client (connections w p) \<noteq> client \<longrightarrow>
        hookInitFrameBuffer uninit client w = Some (False, w))"
  by (auto simp: hookInitFrameBuffer_def hookUpdateFB_def hookFinishFrameBufferUpdate_def
      hookHandleCursorPos_def hookCursorShape_def hookCutText_def Let_def clientData_def
      split: option.splits)

theorem hooks_without_owner_witness:
  "clientData (Some 1) VncConnectionTag sampleWorld = None
   \<and> hookInitFrameBuffer (\<lambda>i. 7) (Some 1) sampleWorld = Some (False, sampleWorld)
   \<and> hookUpdateFB (Some 1) 0 0 3 2 sampleWorld = sampleWorld
   \<and> hookFinishFrameBufferUpdate 5 (Some 1) sampleWorld = sampleWorld
   \<and> hookHandleCursorPos (Some 1) 4 4 sampleWorld = (True, sampleWorld)
   \<and> hookCursorShape (Some 1) 0 0 3 2 4 sampleWorld = Some sampleWorld
   \<and> hookCutText (Some 1) ''abc'' 3 sampleWorld = sampleWorld
   \<and> clientData (Some 1) VncConnectionTag mismatchWorld = Some 0
   \<and> m_client (connections mismatchWorld 0) \<noteq> Some 1
   \<and> hookInitFrameBuffer (\<lambda>i. 7) (Some 1) mismatchWorld = Some (False, mismatchWorld)"
proof -
  have none: "clientData (Some 1) VncConnectionTag sampleWorld = None"
    by (simp add: clientData_def sampleWorld_def sampleClients_def sampleClient_def)
  have other: "clientData (Some 1) VncConnectionTag mismatchWorld = Some 0
      \<and> m_client (connections mismatchWorld 0) \<noteq> Some 1"
    by (simp add: clientData_def mismatchWorld_def)
  have notnull: "Some (1::nat) \<noteq> None"
    by simp
  show ?thesis
    using none other notnull
      hooks_without_owner [of "Some 1" sampleWorld "\<lambda>i. 7" 0 0 3 2 5 4 0 0 "''abc''" 3]
      hooks_without_owner [of "Some 1" sampleWorld "\<lambda>i. 7" 4 4 3 2 5 4 0 0 "''abc''" 3]
      hooks_without_owner [of "Some 1" mismatchWorld "\<lambda>i. 7" 0 0 3 2 5 4 0 0 "''abc''" 3]
    by blast
qed

text \<open>C3 as stated fails for an owner that does not match: the connection registered in the
  slot of client 1 has client 2 as its own, and still the update-region callback invoked
  for client 1 makes it emit \<^verbatim>\<open>imageUpdated\<close>, and the finish-update callback makes its
  framebuffer state Valid.\<close>

theorem hooks_mismatched_owner_act:
  "clientData (Some 1) VncConnectionTag mismatchWorld = Some 0
   \<and> m_client (connections mismatchWorld 0) \<noteq> Some 1
   \<and> effects (connections mismatchWorld 0) = []
   \<and> effects (connections (hookUpdateFB (Some 1) 0 0 3 2 mismatchWorld) 0)
       = [Emit (imageUpdated 0 0 3 2)]
   \<and> m_framebufferState (connections mismatchWorld 0) = Invalid
   \<and> m_framebufferState (connections (hookFinishFrameBufferUpdate 5 (Some 1) mismatchWorld) 0) = Valid"
  by (simp add: mismatchWorld_def clientData_def hookUpdateFB_def hookFinishFrameBufferUpdate_def
      onConnection_def finishFrameBufferUpdate_def sampleConnection_def)

text \<open>
  C6. In a turn of the message pump (the loop condition holds and a client is attached)
  where \<^verbatim>\<open>WaitForMessage\<close> reports no message and the watchdog has run for at least
  max(2 x update interval, watchdog timeout), the turn goes on to the next one, the only
  framebuffer update request among its effects is one non-incremental request for
  (0, 0, width, height), and the watchdog is restarted; the loop then continues from the
  resulting state. This holds whatever the update interval and the trigger flag are; no
  incremental request is sent and the trigger flag keeps its value. The doubled interval is
  assumed to fit a 32-bit \<^verbatim>\<open>int\<close>.
\<close>

theorem watchdog_full_update:
  assumes guard: "pumpGuard s"
    and client: "m_client s = Some c"
    and nomsg: "waitResult inp = 0"
    and fits: "fits32 (2 * m_framebufferUpdateInterval s)"
    and elapsed: "watchdogNow inp - m_framebufferUpdateWatchdog s \<ge>
        max (2 * m_framebufferUpdateInterval s) (m_framebufferUpdateWatchdogTimeout s)"
  shows "\<exists>s' later. pumpBody inp (s, cl) = Inr (True, (s', cl))
     \<and> handleConnection (inp # rest) (s, cl) = handleConnection rest (s', cl)
     \<and> effects s' = effects s @ later
     \<and> filter isUpdateRequest later =
         [Codec (SendFramebufferUpdateRequest 0 0 (width (cl c)) (height (cl c)) False)]
     \<and> m_framebufferUpdateWatchdog s' = restartNow inp
     \<and> isControlFlagSet TriggerFramebufferUpdate s' = isControlFlagSet TriggerFramebufferUpdate s"
proof -
  let ?req = "Codec (SendFramebufferUpdateRequest 0 0 (width (cl c)) (height (cl c)) False)"
  let ?s1 = "(perform ?req s)\<lparr>m_framebufferUpdateWatchdog := restartNow inp\<rparr>"
  have noterm: "\<not> isControlFlagSet TerminateThread s"
    using guard by (simp add: pumpGuard_def)
  have branch: "pumpBranches inp c (s, cl) = Inr (True, (?s1, cl))"
    using nomsg fits elapsed by (simp add: pumpBranches_def)
  obtain later where tail: "pumpTail inp (?s1, cl) =
       (?s1\<lparr>m_eventQueue := [], effects := effects ?s1 @ later\<rparr>, cl)"
    and quiet: "filter isUpdateRequest later = []"
    using pumpTail_result [of inp ?s1 cl] by blast
  let ?s' = "?s1\<lparr>m_eventQueue := [], effects := effects ?s1 @ later\<rparr>"
  have body: "pumpBody inp (s, cl) = Inr (True, (?s', cl))"
    using client noterm nomsg branch tail by (simp add: pumpBody_def)
  have eff: "effects ?s' = effects s @ (?req # later)"
    by (simp add: perform_def)
  have req: "filter isUpdateRequest (?req # later) = [?req]"
    using quiet by simp
  have wd: "m_framebufferUpdateWatchdog ?s' = restartNow inp"
    by simp
  have trig: "isControlFlagSet TriggerFramebufferUpdate ?s' = isControlFlagSet TriggerFramebufferUpdate s"
    by (simp add: isControlFlagSet_def perform_def)
  have loop: "handleConnection (inp # rest) (s, cl) = handleConnection rest (?s', cl)"
    using guard body by simp
  show ?thesis
    using body loop eff req wd trig by blast
qed

theorem watchdog_full_update_witness:
  "pumpGuard (sampleConnection\<lparr>m_state := Connected, m_client := Some 0,
                m_eventQueue := [VncKeyEvent 65 True]\<rparr>)
   \<and> (\<exists>s' later.
        pumpBody (samplePump 20000)
          (sampleConnection\<lparr>m_state := Connected, m_client := Some 0,
             m_eventQueue := [VncKeyEvent 65 True]\<rparr>, sampleClients)
          = Inr (True, (s', sampleClients))
        \<and> effects s' = later
        \<and> filter isUpdateRequest later = [Codec (SendFramebufferUpdateRequest 0 0 3 2 False)]
        \<and> m_framebufferUpdateWatchdog s' = 20001)"
proof -
  let ?s = "sampleConnection\<lparr>m_state := Connected, m_client := Some 0,
                m_eventQueue := [VncKeyEvent 65 True]\<rparr>"
  have guard: "pumpGuard ?s"
    by (simp add: pumpGuard_def isControlFlagSet_def sampleConnection_def)
  have client: "m_client ?s = Some 0"
    by simp
  have nomsg: "waitResult (samplePump 20000) = 0"
    by (simp add: samplePump_def)
  have fits: "fits32 (2 * m_framebufferUpdateInterval ?s)"
    by (simp add: fits32_def sampleConnection_def)
  have elapsed: "watchdogNow (samplePump 20000) - m_framebufferUpdateWatchdog ?s \<ge>
        max (2 * m_framebufferUpdateInterval ?s) (m_framebufferUpdateWatchdogTimeout ?s)"
    by (simp add: samplePump_def sampleConnection_def)
  have facts: "effects ?s = []" "width (sampleClients 0) = 3" "height (sampleClients 0) = 2"
      "restartNow (samplePump 20000) = 20001"
    by (simp_all add: sampleConnection_def sampleClients_def sampleClient_def samplePump_def)
  from watchdog_full_update [OF guard client nomsg fits elapsed, of sampleClients "[]"]
  have "\<exists>s' later.
        pumpBody (samplePump 20000) (?s, sampleClients) = Inr (True, (s', sampleClients))
        \<and> effects s' = later
        \<and> filter isUpdateRequest later = [Codec (SendFramebufferUpdateRequest 0 0 3 2 False)]
        \<and> m_framebufferUpdateWatchdog s' = 20001"
    unfolding facts by (simp only: append_Nil) blast
  then show ?thesis
    using guard by blast
qed

text \<open>
  C7. When \<^verbatim>\<open>rfbInitClient\<close> has failed and the thread is not asked to terminate, the attempt
  ends with the state HostOffline if the ServerReachable flag is not set and SkipHostPing
  is set or the ping fails; ServerNotRunning if ServerReachable is not set otherwise;
  AuthenticationFailed if ServerReachable is set and the framebuffer state is still
  Invalid; ConnectionFailed in the remaining case. The flags and the framebuffer state are
  those found when \<^verbatim>\<open>rfbInitClient\<close> returns.
\<close>

theorem failure_classification:
  assumes failed: "initClient inp (prepareClient this inp d) = (False, (s, cl))"
    and noterm: "\<not> isControlFlagSet TerminateThread s"
  shows "\<exists>s'. establishAttempt this inp d = Inr (False, (s', cl))
     \<and> (\<not> isControlFlagSet ServerReachable s
           \<and> (isControlFlagSet SkipHostPing s \<or> \<not> pingResult inp) \<longrightarrow> m_state s' = HostOffline)
     \<and> (\<not> isControlFlagSet ServerReachable s
           \<and> \<not> (isControlFlagSet SkipHostPing s \<or> \<not> pingResult inp) \<longrightarrow> m_state s' = ServerNotRunning)
     \<and> (isControlFlagSet ServerReachable s \<and> m_framebufferState s = Invalid \<longrightarrow>
           m_state s' = AuthenticationFailed)
     \<and> (isControlFlagSet ServerReachable s \<and> m_framebufferState s \<noteq> Invalid \<longrightarrow>
           m_state s' = ConnectionFailed)"
  using assms
  by (simp add: establishAttempt_def afterInitClient_def setState_def Let_def)

text \<open>The theorem at four attempts from a new connection object: the server is never
  reached and the ping fails, or succeeds; the server is reached during the handshake and
  no framebuffer is initialised, or one is.\<close>

text \<open>The theorem at four attempts from a new connection object: the server is never
  reached and the ping fails, or succeeds; the server is reached during the handshake and
  no framebuffer is initialised, or one is.\<close>

theorem failure_classification_witness:
  "(\<exists>s' cl. establishAttempt 0 (sampleAttempt (\<lambda>d. (False, d)) False)
               (sampleConnection, sampleClients) = Inr (False, (s', cl))
        \<and> m_state s' = HostOffline)
   \<and> (\<exists>s' cl. establishAttempt 0 (sampleAttempt (\<lambda>d. (False, d)) True)
               (sampleConnection, sampleClients) = Inr (False, (s', cl))
        \<and> m_state s' = ServerNotRunning)
   \<and> (\<exists>s' cl. establishAttempt 0
               (sampleAttempt (\<lambda>d. (False, (setServerReachable (fst d), snd d))) True)
               (sampleConnection, sampleClients) = Inr (False, (s', cl))
        \<and> m_state s' = AuthenticationFailed)
   \<and> (\<exists>s' cl. establishAttempt 0
               (sampleAttempt (\<lambda>d. (False, (setServerReachable (fst d)\<lparr>m_framebufferState := Initialized\<rparr>, snd d))) True)
               (sampleConnection, sampleClients) = Inr (False, (s', cl))
        \<and> m_state s' = ConnectionFailed)"
proof -
  let ?d = "(sampleConnection, sampleClients)"
  have fresh: "m_framebufferState sampleConnection = Invalid"
    by (simp add: sampleConnection_def)
  have unreached: "\<exists>s' cl. establishAttempt 0 (sampleAttempt (\<lambda>d. (False, d)) p) ?d = Inr (False, (s', cl))
        \<and> m_state s' = (if p then ServerNotRunning else HostOffline)" for p
  proof -
    let ?inp = "sampleAttempt (\<lambda>d. (False, d)) p"
    obtain s cl where p: "prepareClient 0 ?inp ?d = (s, cl)"
      by (cases "prepareClient 0 ?inp ?d")
    have s: "s = fst (prepareClient 0 ?inp ?d)"
      by (simp add: p)
    have fl: "\<not> isControlFlagSet ServerReachable s" "\<not> isControlFlagSet SkipHostPing s"
      "\<not> isControlFlagSet TerminateThread s"
      unfolding s by (simp_all add: prepared_flags sample_flags)
    have ic: "initClient ?inp = (\<lambda>d. (False, d))"
      by (simp add: sampleAttempt_def)
    have init: "initClient ?inp (prepareClient 0 ?inp ?d) = (False, (s, cl))"
      unfolding ic p by simp
    have ping: "pingResult ?inp = p"
      by (simp add: sampleAttempt_def)
    from failure_classification [OF init fl(3)] fl(1,2) ping
    show ?thesis
      by (cases p) auto
  qed
  have reached: "\<exists>s' cl. establishAttempt 0
        (sampleAttempt (\<lambda>d. (False, (setServerReachable (fst d), snd d))) True) ?d
          = Inr (False, (s', cl))
        \<and> m_state s' = AuthenticationFailed"
  proof -
    let ?inp = "sampleAttempt (\<lambda>d. (False, (setServerReachable (fst d), snd d))) True"
    obtain s cl where p: "prepareClient 0 ?inp ?d = (s, cl)"
      by (cases "prepareClient 0 ?inp ?d")
    have s: "s = fst (prepareClient 0 ?inp ?d)"
      by (simp add: p)
    have fl: "isControlFlagSet ServerReachable (setServerReachable s)"
      "\<not> isControlFlagSet TerminateThread (setServerReachable s)"
      "m_framebufferState (setServerReachable s) = Invalid"
      unfolding s
      by (simp_all add: setServerReachable_def isControlFlagSet_setControlFlag prepared_flags
          sample_flags prepared_framebufferState fresh)
    have ic: "initClient ?inp = (\<lambda>d. (False, (setServerReachable (fst d), snd d)))"
      by (simp add: sampleAttempt_def)
    have init: "initClient ?inp (prepareClient 0 ?inp ?d) = (False, (setServerReachable s, cl))"
      unfolding ic p by simp
    from failure_classification [OF init fl(2)] fl(1,3)
    show ?thesis
      by auto
  qed
  have initialised: "\<exists>s' cl. establishAttempt 0
        (sampleAttempt (\<lambda>d. (False, (setServerReachable (fst d)\<lparr>m_framebufferState := Initialized\<rparr>, snd d))) True) ?d
          = Inr (False, (s', cl))
        \<and> m_state s' = ConnectionFailed"
  proof -
    let ?inp = "sampleAttempt (\<lambda>d. (False, (setServerReachable (fst d)\<lparr>m_framebufferState := Initialized\<rparr>, snd d))) True"
    obtain s cl where p: "prepareClient 0 ?inp ?d = (s, cl)"
      by (cases "prepareClient 0 ?inp ?d")
    have s: "s = fst (prepareClient 0 ?inp ?d)"
      by (simp add: p)
    let ?s = "setServerReachable s\<lparr>m_framebufferState := Initialized\<rparr>"
    have fl: "isControlFlagSet ServerReachable ?s"
      "\<not> isControlFlagSet TerminateThread ?s"
      "m_framebufferState ?s \<noteq> Invalid"
      unfolding s
      by (simp_all add: setServerReachable_def isControlFlagSet_setControlFlag prepared_flags
          sample_flags)
    have ic: "initClient ?inp =
        (\<lambda>d. (False, (setServerReachable (fst d)\<lparr>m_framebufferState := Initialized\<rparr>, snd d)))"
      by (simp add: sampleAttempt_def)
    have init: "initClient ?inp (prepareClient 0 ?inp ?d) = (False, (?s, cl))"
      unfolding ic p by simp
    from failure_classification [OF init fl(2)] fl(1,3)
    show ?thesis
      by auto
  qed
  show ?thesis
    using unreached [of False] unreached [of True] reached initialised
    by (simp only: if_True if_False simp_thms)
qed

text \<open>
  C10. \<^verbatim>\<open>setFramebufferUpdateInterval(i)\<close> stores \<open>i\<close> and wakes the sleeper. For \<open>i \<le> 0\<close> it
  also sets the TriggerFramebufferUpdate flag and leaves every other flag as it was, so
  that a following turn of the pump that finds no message and a watchdog that has not run
  out takes the trigger branch: it clears the flag and sends one incremental update
  request. For \<open>i > 0\<close> the control flags are not touched.
\<close>

theorem update_interval_trigger:
  "m_framebufferUpdateInterval (setFramebufferUpdateInterval i s) = i
   \<and> effects (setFramebufferUpdateInterval i s) = effects s @ [WakeAll]
   \<and> (i \<le> 0 \<longrightarrow>
        setFramebufferUpdateInterval i s =
          perform WakeAll (setControlFlag TriggerFramebufferUpdate True (s\<lparr>m_framebufferUpdateInterval := i\<rparr>))
        \<and> isControlFlagSet TriggerFramebufferUpdate (setFramebufferUpdateInterval i s)
        \<and> (\<forall>f. f \<noteq> TriggerFramebufferUpdate \<longrightarrow>
              isControlFlagSet f (setFramebufferUpdateInterval i s) = isControlFlagSet f s)
        \<and> (waitResult inp = 0 \<and> fits32 (2 * i)
             \<and> watchdogNow inp - m_framebufferUpdateWatchdog s
                 < max (2 * i) (m_framebufferUpdateWatchdogTimeout s) \<longrightarrow>
              pumpBranches inp c (setFramebufferUpdateInterval i s, cl) =
                Inr (True,
                  (perform (Codec SendIncrementalFramebufferUpdateRequest)
                     (setControlFlag TriggerFramebufferUpdate False (setFramebufferUpdateInterval i s)),
                   cl))))
   \<and> (i > 0 \<longrightarrow>
        setFramebufferUpdateInterval i s = perform WakeAll (s\<lparr>m_framebufferUpdateInterval := i\<rparr>)
        \<and> m_controlFlags (setFramebufferUpdateInterval i s) = m_controlFlags s)"
proof -
  let ?s = "setFramebufferUpdateInterval i s"
  have stored: "m_framebufferUpdateInterval ?s = i"
    by (simp add: setFramebufferUpdateInterval_def Let_def)
  have woken: "effects ?s = effects s @ [WakeAll]"
    by (simp add: setFramebufferUpdateInterval_def Let_def)
  have pos: "i > 0 \<longrightarrow>
        ?s = perform WakeAll (s\<lparr>m_framebufferUpdateInterval := i\<rparr>)
        \<and> m_controlFlags ?s = m_controlFlags s"
    by (simp add: setFramebufferUpdateInterval_def Let_def)
  have nonpos: "i \<le> 0 \<longrightarrow>
        ?s = perform WakeAll (setControlFlag TriggerFramebufferUpdate True (s\<lparr>m_framebufferUpdateInterval := i\<rparr>))
        \<and> isControlFlagSet TriggerFramebufferUpdate ?s
        \<and> (\<forall>f. f \<noteq> TriggerFramebufferUpdate \<longrightarrow> isControlFlagSet f ?s = isControlFlagSet f s)"
    by (simp add: setFramebufferUpdateInterval_def Let_def isControlFlagSet_setControlFlag)
  have kept: "m_framebufferUpdateWatchdog ?s = m_framebufferUpdateWatchdog s"
      "m_framebufferUpdateWatchdogTimeout ?s = m_framebufferUpdateWatchdogTimeout s"
    by (simp_all add: setFramebufferUpdateInterval_def Let_def)
  have pump: "waitResult inp = 0 \<and> fits32 (2 * i)
             \<and> watchdogNow inp - m_framebufferUpdateWatchdog s
                 < max (2 * i) (m_framebufferUpdateWatchdogTimeout s) \<longrightarrow>
              pumpBranches inp c (?s, cl) =
                Inr (True,
                  (perform (Codec SendIncrementalFramebufferUpdateRequest)
                     (setControlFlag TriggerFramebufferUpdate False ?s), cl))" if "i \<le> 0"
  proof (intro impI, elim conjE)
    assume w0: "waitResult inp = 0" and fit: "fits32 (2 * i)"
      and el: "watchdogNow inp - m_framebufferUpdateWatchdog s
                 < max (2 * i) (m_framebufferUpdateWatchdogTimeout s)"
    have trig: "isControlFlagSet TriggerFramebufferUpdate ?s"
      using nonpos that by blast
    have fit': "fits32 (2 * m_framebufferUpdateInterval ?s)"
      using fit by (simp only: stored)
    have early: "\<not> (watchdogNow inp - m_framebufferUpdateWatchdog ?s \<ge>
        max (2 * m_framebufferUpdateInterval ?s) (m_framebufferUpdateWatchdogTimeout ?s))"
      using el by (simp only: stored kept not_le)
    have nointerval: "\<not> m_framebufferUpdateInterval ?s > 0"
      using that by (simp only: stored not_less)
    show "pumpBranches inp c (?s, cl) =
                Inr (True,
                  (perform (Codec SendIncrementalFramebufferUpdateRequest)
                     (setControlFlag TriggerFramebufferUpdate False ?s), cl))"
      unfolding pumpBranches_def using w0 fit' early nointerval trig
      by (simp only: prod.case if_True if_False simp_thms)
  qed
  show ?thesis
    using stored woken pos nonpos pump by blast
qed

theorem update_interval_trigger_witness:
  "isControlFlagSet TriggerFramebufferUpdate (setFramebufferUpdateInterval 0 sampleConnection)
   \<and> m_framebufferUpdateInterval (setFramebufferUpdateInterval 0 sampleConnection) = 0
   \<and> pumpBranches (samplePump 5) 0 (setFramebufferUpdateInterval 0 sampleConnection, sampleClients) =
        Inr (True,
          (perform (Codec SendIncrementalFramebufferUpdateRequest)
             (setControlFlag TriggerFramebufferUpdate False
                (setFramebufferUpdateInterval 0 sampleConnection)), sampleClients))
   \<and> m_framebufferUpdateInterval (setFramebufferUpdateInterval 100 sampleConnection) = 100
   \<and> m_controlFlags (setFramebufferUpdateInterval 100 sampleConnection) = m_controlFlags sampleConnection"
proof -
  have quiet: "waitResult (samplePump 5) = 0 \<and> fits32 (2 * 0)
      \<and> watchdogNow (samplePump 5) - m_framebufferUpdateWatchdog sampleConnection
          < max (2 * 0) (m_framebufferUpdateWatchdogTimeout sampleConnection)"
    by (simp add: samplePump_def fits32_def sampleConnection_def)
  have signs: "(0::int) \<le> 0" "(100::int) > 0"
    by simp_all
  show ?thesis
    using quiet signs
      update_interval_trigger [of 0 sampleConnection "samplePump 5" 0 sampleClients]
      update_interval_trigger [of 100 sampleConnection "samplePump 5" 0 sampleClients]
    by blast
qed

end
